theory Spec2Isabelle
  imports Complex_Main
begin

section \<open>Shared data: Python errors and article dictionaries\<close>

text \<open>
  Exceptions become values. \<open>ValueError\<close> and \<open>KeyError\<close> carry the message or the
  missing key; \<open>ZeroDivisionError\<close> is what \<open>/\<close> raises on a zero divisor;
  \<open>DimensionMismatchError\<close> is the spec's name (section 7) for the error of a vector
  store that is given a vector of the wrong dimension.
  \<open>exception_name\<close> is the Python class name of the exception object
  (\<open>type(e).__name__\<close>), which is what an \<open>except\<close> clause matches on.
\<close>

datatype error =
    ValueError string
  | KeyError string
  | ZeroDivisionError
  | DimensionMismatchError

fun exception_name :: "error \<Rightarrow> string" where
  "exception_name (ValueError m) = ''ValueError''"
| "exception_name (KeyError k) = ''KeyError''"
| "exception_name ZeroDivisionError = ''ZeroDivisionError''"
| "exception_name DimensionMismatchError = ''DimensionMismatchError''"

text \<open>
  Python values of more than one type: what a function without a \<open>return\<close> statement
  returns (\<open>None\<close>), and the values of a dict that mixes integers and strings.
\<close>

datatype pyval = PyNone | PyInt int | PyStr string

text \<open>
  An article is a Python dict. The code reads only the keys \<open>title\<close>, \<open>description\<close>,
  \<open>link\<close>, \<open>published\<close>, \<open>text\<close> and \<open>embedding\<close>; a key that is absent from the dict
  is \<open>None\<close> here. The embedding is a numpy array that the code stores and never
  computes with, so its type is a parameter \<open>'v\<close>. The key \<open>text\<close> is the field \<open>text_key\<close>.
\<close>

record 'v article =
  title :: "string option"
  description :: "string option"
  link :: "string option"
  published :: "string option"
  text_key :: "string option"
  embedding :: "'v option"

text \<open>\<open>d.get(key, default)\<close> for a string-valued key.\<close>

definition get_or :: "string option \<Rightarrow> string \<Rightarrow> string" where
  "get_or v dflt = (case v of None \<Rightarrow> dflt | Some s \<Rightarrow> s)"

text \<open>The f-string \<open>f"{title}\n{description}"\<close> with both keys defaulting to \<open>""\<close>.\<close>

definition title_nl_description :: "('v, 'x) article_scheme \<Rightarrow> string" where
  "title_nl_description a =
     get_or (title a) '''' @ [CHR 0x0A] @ get_or (description a) ''''"


section \<open>tokenization.py\<close>

text \<open>
  \<open>tiktoken.get_encoding\<close> is a third-party function: it is a parameter \<open>get_encoding\<close>
  that maps an encoding name to an encoder (a function from text to a token list) or
  raises. \<open>count_tokens\<close> is \<open>len(encoder.encode(text))\<close>.
\<close>

type_synonym 't tokenizer = "string \<Rightarrow> error + (string \<Rightarrow> 't list)"

definition get_tokenizer :: "'t tokenizer \<Rightarrow> string \<Rightarrow> error + (string \<Rightarrow> 't list)" where
  "get_tokenizer get_encoding encoding_name = get_encoding encoding_name"

definition count_tokens :: "'t tokenizer \<Rightarrow> string \<Rightarrow> string \<Rightarrow> error + int" where
  "count_tokens get_encoding txt encoding_name =
     (case get_tokenizer get_encoding encoding_name of
        Inl e \<Rightarrow> Inl e
      | Inr encoder \<Rightarrow> Inr (int (length (encoder txt))))"

record article_analysis =
  an_title :: string
  an_title_tokens :: int
  an_description_tokens :: int
  an_total_tokens :: int
  an_full_text :: string

definition analyze_article_tokens ::
  "'t tokenizer \<Rightarrow> ('v, 'x) article_scheme \<Rightarrow> string \<Rightarrow> error + article_analysis" where
  "analyze_article_tokens get_encoding a encoding_name =
     (let ttl = get_or (title a) '''';
          dsc = get_or (description a) '''';
          full_text = ttl @ [CHR 0x0A] @ dsc
      in case count_tokens get_encoding ttl encoding_name of
           Inl e \<Rightarrow> Inl e
         | Inr title_tokens \<Rightarrow>
        (case count_tokens get_encoding dsc encoding_name of
           Inl e \<Rightarrow> Inl e
         | Inr description_tokens \<Rightarrow>
        (case count_tokens get_encoding full_text encoding_name of
           Inl e \<Rightarrow> Inl e
         | Inr total_tokens \<Rightarrow>
             Inr \<lparr>an_title = ttl, an_title_tokens = title_tokens,
                  an_description_tokens = description_tokens,
                  an_total_tokens = total_tokens, an_full_text = full_text\<rparr>)))"

text \<open>
  The Python operations that can raise on an empty list: true division \<open>a / b\<close>
  (\<open>ZeroDivisionError\<close> when \<open>b = 0\<close>) and the built-ins \<open>min\<close> and \<open>max\<close>
  (\<open>ValueError\<close> on an empty sequence). The quotient is a Python float; it is the exact
  rational here, since no claim depends on its rounding.
\<close>

definition py_truediv :: "int \<Rightarrow> int \<Rightarrow> error + rat" where
  "py_truediv a b = (if b = 0 then Inl ZeroDivisionError else Inr (of_int a / of_int b))"

fun py_min :: "int list \<Rightarrow> error + int" where
  "py_min [] = Inl (ValueError ''min() arg is an empty sequence'')"
| "py_min (x # xs) = Inr (fold min xs x)"

fun py_max :: "int list \<Rightarrow> error + int" where
  "py_max [] = Inl (ValueError ''max() arg is an empty sequence'')"
| "py_max (x # xs) = Inr (fold max xs x)"

text \<open>The loop \<open>for article in articles: token_counts.append(...)\<close>.\<close>

fun collect_token_counts ::
  "'t tokenizer \<Rightarrow> ('v, 'x) article_scheme list \<Rightarrow> string \<Rightarrow> int list \<Rightarrow> error + int list" where
  "collect_token_counts get_encoding [] encoding_name token_counts = Inr token_counts"
| "collect_token_counts get_encoding (a # rest) encoding_name token_counts =
     (case analyze_article_tokens get_encoding a encoding_name of
        Inl e \<Rightarrow> Inl e
      | Inr analysis \<Rightarrow>
          collect_token_counts get_encoding rest encoding_name
            (token_counts @ [an_total_tokens analysis]))"

record corpus_stats =
  num_articles :: int
  total_tokens :: int
  avg_tokens :: rat
  min_tokens :: int
  max_tokens :: int
  token_counts :: "int list"

text \<open>
  The returned dict. Each conditional expression \<open>X if token_counts else 0\<close> evaluates
  \<open>X\<close> only when the list is non-empty; an error raised by \<open>X\<close> would propagate.
\<close>

definition analyze_corpus_tokens ::
  "'t tokenizer \<Rightarrow> ('v, 'x) article_scheme list \<Rightarrow> string \<Rightarrow> error + corpus_stats" where
  "analyze_corpus_tokens get_encoding articles encoding_name =
     (case collect_token_counts get_encoding articles encoding_name [] of
        Inl e \<Rightarrow> Inl e
      | Inr counts \<Rightarrow>
        (case (if counts \<noteq> [] then py_truediv (sum_list counts) (int (length counts))
               else Inr 0) of
           Inl e \<Rightarrow> Inl e
         | Inr avg \<Rightarrow>
        (case (if counts \<noteq> [] then py_min counts else Inr 0) of
           Inl e \<Rightarrow> Inl e
         | Inr mn \<Rightarrow>
        (case (if counts \<noteq> [] then py_max counts else Inr 0) of
           Inl e \<Rightarrow> Inl e
         | Inr mx \<Rightarrow>
             Inr \<lparr>num_articles = int (length articles), total_tokens = sum_list counts,
                  avg_tokens = avg, min_tokens = mn, max_tokens = mx,
                  token_counts = counts\<rparr>))))"

text \<open>
  \<open>needs_chunking\<close>: the pair of the comparison and the count (the parameter
  \<open>max_tokens\<close> is \<open>max_allowed\<close> here, the name being a field of the statistics).
\<close>

definition needs_chunking :: "'t tokenizer \<Rightarrow> string \<Rightarrow> int \<Rightarrow> string \<Rightarrow> error + (bool \<times> int)" where
  "needs_chunking get_encoding txt max_allowed encoding_name =
     (case count_tokens get_encoding txt encoding_name of
        Inl e \<Rightarrow> Inl e
      | Inr token_count \<Rightarrow> Inr (token_count > max_allowed, token_count))"


section \<open>embeddings.py\<close>

text \<open>
  \<open>SentenceTransformer.encode\<close> is a third-party function with two uses: on one
  string it returns one array, on a list of strings it returns one array per string.
  Both are fields of the embedder, next to the model's name.
\<close>

record 'v embedder =
  model_name :: string
  encode_one :: "string \<Rightarrow> 'v"
  encode_many :: "string list \<Rightarrow> 'v list"

definition embed_text :: "'v embedder \<Rightarrow> string \<Rightarrow> 'v" where
  "embed_text emb txt = encode_one emb txt"

text \<open>
  \<open>embed_articles\<close>: the texts are \<open>title + "\n" + description\<close>; \<open>zip\<close> pairs each
  article with its embedding and stops at the shorter list; the copy of the article
  gets the keys \<open>embedding\<close> and \<open>text\<close>.
\<close>

definition embed_articles :: "'v embedder \<Rightarrow> 'v article list \<Rightarrow> 'v article list" where
  "embed_articles emb articles =
     (let texts = map title_nl_description articles;
          embeddings = encode_many emb texts
      in map (\<lambda>(a, e). a\<lparr>embedding := Some e, text_key := Some (title_nl_description a)\<rparr>)
             (zip articles embeddings))"


section \<open>The Chroma collection\<close>

text \<open>
  A metadata dict and a result row are dicts from strings to strings, kept in insertion
  order. \<open>dict_get\<close> is \<open>d.get(key, default)\<close>.
\<close>

type_synonym str_dict = "(string \<times> string) list"

definition dict_get :: "str_dict \<Rightarrow> string \<Rightarrow> string \<Rightarrow> string" where
  "dict_get d k dflt = (case map_of d k of None \<Rightarrow> dflt | Some v \<Rightarrow> v)"

text \<open>
  Modelled from the spec: the Vector Index (the chromadb collection behind
  \<open>self.collection\<close>; chromadb is a dependency, its code is not in the repository).
  The spec's section 4.2 gives a collection as a set of records, each an id with its
  text, vector and metadata. It is the list of its records in the order of first
  insertion.
\<close>

record 'v entry =
  entry_id :: string
  entry_document :: string
  entry_embedding :: 'v
  entry_metadata :: str_dict

type_synonym 'v chroma_collection = "'v entry list"

text \<open>
  Modelled from the spec: \<open>collection.count()\<close>, the spec's \<open>document_count\<close>: the
  number of stored records.
\<close>

definition collection_count :: "'v chroma_collection \<Rightarrow> int" where
  "collection_count c = int (length c)"

text \<open>
  Modelled from the spec: the write of one record. Section 4.2: if its id exists,
  replace vector, text and metadata; if absent, insert. This is the write alone; whether
  a record is accepted is decided before it, below.
\<close>

fun put_record :: "'v entry \<Rightarrow> 'v chroma_collection \<Rightarrow> 'v chroma_collection" where
  "put_record r [] = [r]"
| "put_record r (x # xs) =
     (if entry_id x = entry_id r then r # xs else x # put_record r xs)"

text \<open>
  Modelled from the spec: the dimension of a collection. Section 3: every stored vector
  has the same dimension. The code configures none when it creates the collection
  (\<open>create_collection\<close> gets a name and the distance only), so the dimension is the one
  of the vectors already stored, and an empty collection has none yet. A vector is a
  list of numbers (\<open>embedding.tolist()\<close>); its dimension is its length.
\<close>

definition collection_dimension :: "'x list chroma_collection \<Rightarrow> nat option" where
  "collection_dimension c =
     (case c of [] \<Rightarrow> None | r # rs \<Rightarrow> Some (length (entry_embedding r)))"

text \<open>
  Modelled from the spec: \<open>upsert\<close> of one record. Section 7: a vector that does not
  match the collection's dimension is rejected with \<open>DimensionMismatchError\<close>. An
  accepted record is written; into an empty collection every vector is accepted and
  fixes the dimension.
\<close>

definition upsert_record ::
  "'x list entry \<Rightarrow> 'x list chroma_collection \<Rightarrow> error + 'x list chroma_collection" where
  "upsert_record r c =
     (case collection_dimension c of
        None \<Rightarrow> Inr (put_record r c)
      | Some n \<Rightarrow>
          if length (entry_embedding r) = n then Inr (put_record r c)
          else Inl DimensionMismatchError)"

text \<open>
  Modelled from the spec: \<open>collection.upsert\<close> of a batch. The call passes four
  parallel lists, one record per position. The store validates its arguments first and
  raises \<open>ValueError\<close> for an empty list of ids and for a vector without components
  (the messages are the store's and are abbreviated here; only the class of the
  exception is used). Then the records are taken in order. A call that raises leaves
  the caller with the collection as it was: section 7 would let the rest of a batch go
  on after a rejected record, but the store that the code calls raises for the whole
  call and \<open>add_documents\<close> has no handler; on a batch of one record the two agree.
\<close>

fun upsert_records ::
  "'x list entry list \<Rightarrow> 'x list chroma_collection \<Rightarrow> error + 'x list chroma_collection" where
  "upsert_records [] c = Inr c"
| "upsert_records (r # rs) c =
     (case upsert_record r c of Inl e \<Rightarrow> Inl e | Inr c' \<Rightarrow> upsert_records rs c')"

definition make_entries ::
  "string list \<Rightarrow> 'v list \<Rightarrow> str_dict list \<Rightarrow> string list \<Rightarrow> 'v entry list" where
  "make_entries documents embeddings metadatas ids =
     map (\<lambda>(i, d, e, m).
            \<lparr>entry_id = i, entry_document = d, entry_embedding = e, entry_metadata = m\<rparr>)
         (zip ids (zip documents (zip embeddings metadatas)))"

definition collection_upsert ::
  "string list \<Rightarrow> 'x list list \<Rightarrow> str_dict list \<Rightarrow> string list
     \<Rightarrow> 'x list chroma_collection \<Rightarrow> error + 'x list chroma_collection" where
  "collection_upsert documents embeddings metadatas ids c =
     (if ids = [] then Inl (ValueError ''Expected IDs to be a non-empty list'')
      else if [] \<in> set embeddings
        then Inl (ValueError ''Expected each embedding to be a non-empty list'')
      else upsert_records (make_entries documents embeddings metadatas ids) c)"

text \<open>
  Modelled from the spec: "the stored record" of an id (section 8, idempotence), as
  \<open>collection.get(ids=[i])\<close> reads it: the record with that id, if there is one.
\<close>

definition collection_get :: "'v chroma_collection \<Rightarrow> string \<Rightarrow> 'v entry option" where
  "collection_get c i = find (\<lambda>r. entry_id r = i) c"

text \<open>
  Modelled from the spec: \<open>collection.query\<close>. Section 4.2: up to \<open>k\<close> stored records,
  ranked by similarity to the query vector, ties in insertion order; an empty
  collection gives an empty result. The similarity arithmetic is the store's own
  (floating point): it enters as a parameter \<open>distance\<close> into some linear order,
  smaller meaning more similar, and the ranking is the stable sort by it. The result
  has one inner list per query vector, as chromadb's result dict does. With
  \<open>query_texts\<close> the store embeds the text itself, by \<open>default_embedding\<close>.
\<close>

record ('v, 'd) chroma_env =
  distance :: "'v \<Rightarrow> 'v \<Rightarrow> 'd"
  default_embedding :: "string \<Rightarrow> 'v"

record 'd query_result =
  res_ids :: "string list list"
  res_documents :: "string list list option"
  res_metadatas :: "str_dict list list option"
  res_distances :: "'d list list option"

definition nearest ::
  "('v, 'd::linorder) chroma_env \<Rightarrow> 'v \<Rightarrow> nat \<Rightarrow> 'v chroma_collection \<Rightarrow> 'v entry list" where
  "nearest env qv k c = take k (sort_key (\<lambda>r. distance env qv (entry_embedding r)) c)"

definition collection_query_embeddings ::
  "('v, 'd::linorder) chroma_env \<Rightarrow> 'v list \<Rightarrow> nat \<Rightarrow> 'v chroma_collection
     \<Rightarrow> 'd query_result" where
  "collection_query_embeddings env query_embeddings n_results c =
     \<lparr>res_ids = map (\<lambda>qv. map entry_id (nearest env qv n_results c)) query_embeddings,
      res_documents =
        Some (map (\<lambda>qv. map entry_document (nearest env qv n_results c)) query_embeddings),
      res_metadatas =
        Some (map (\<lambda>qv. map entry_metadata (nearest env qv n_results c)) query_embeddings),
      res_distances =
        Some (map (\<lambda>qv. map (\<lambda>r. distance env qv (entry_embedding r))
                             (nearest env qv n_results c)) query_embeddings)\<rparr>"

definition collection_query_texts ::
  "('v, 'd::linorder) chroma_env \<Rightarrow> string list \<Rightarrow> nat \<Rightarrow> 'v chroma_collection
     \<Rightarrow> 'd query_result" where
  "collection_query_texts env query_texts n_results c =
     collection_query_embeddings env (map (default_embedding env) query_texts) n_results c"


section \<open>retrieval.py\<close>

text \<open>
  The persistent client is the map from collection names to collections at the storage
  location. \<open>__init__\<close> binds \<open>self.collection\<close> on both paths of its \<open>try\<close>: the
  existing collection when \<open>get_collection\<close> finds the name, a new empty one when it
  raises.
\<close>

record 'v retriever =
  collection_name :: string
  persist_directory :: string
  collection :: "'v chroma_collection"

definition retriever_init ::
  "(string \<rightharpoonup> 'v chroma_collection) \<Rightarrow> string \<Rightarrow> string \<Rightarrow> 'v retriever" where
  "retriever_init client name dir =
     \<lparr>collection_name = name, persist_directory = dir,
      collection = (case client name of Some c \<Rightarrow> c | None \<Rightarrow> [])\<rparr>"

text \<open>\<open>str(n)\<close> for a non-negative integer: its decimal digits.\<close>

definition digit_char :: "nat \<Rightarrow> char" where
  "digit_char d = char_of (48 + d)"

fun py_str :: "nat \<Rightarrow> string" where
  "py_str n = (if n < 10 then [digit_char n] else py_str (n div 10) @ [digit_char (n mod 10)])"

declare py_str.simps [simp del]

text \<open>
  The body of the loop of \<open>add_documents\<close> for one article at position \<open>idx\<close>: the
  text (the key \<open>text\<close>, else title and description), the metadata dict and the id
  \<open>f"article_{idx}"\<close>. \<open>article["embedding"]\<close> raises \<open>KeyError\<close> when the key is
  missing.
\<close>

definition document_text :: "'v article \<Rightarrow> string" where
  "document_text a = (case text_key a of Some t \<Rightarrow> t | None \<Rightarrow> title_nl_description a)"

definition article_metadata :: "'v article \<Rightarrow> str_dict" where
  "article_metadata a =
     [(''title'', get_or (title a) ''''),
      (''description'', get_or (description a) ''''),
      (''link'', get_or (link a) ''''),
      (''published'', get_or (published a) '''')]"

definition article_id :: "nat \<Rightarrow> string" where
  "article_id idx = ''article_'' @ py_str idx"

text \<open>
  The loop \<open>for idx, article in enumerate(articles)\<close>, appending to the four lists
  \<open>documents\<close>, \<open>embeddings\<close>, \<open>metadatas\<close>, \<open>ids\<close>.
\<close>

fun add_documents_loop ::
  "nat \<Rightarrow> 'v article list
     \<Rightarrow> string list \<times> 'v list \<times> str_dict list \<times> string list
     \<Rightarrow> error + (string list \<times> 'v list \<times> str_dict list \<times> string list)" where
  "add_documents_loop idx [] acc = Inr acc"
| "add_documents_loop idx (a # rest) (documents, embeddings, metadatas, ids) =
     (case embedding a of
        None \<Rightarrow> Inl (KeyError ''embedding'')
      | Some e \<Rightarrow>
          add_documents_loop (Suc idx) rest
            (documents @ [document_text a], embeddings @ [e],
             metadatas @ [article_metadata a], ids @ [article_id idx]))"

text \<open>
  \<open>add_documents\<close> has no \<open>return\<close> statement: a call that completes returns
  \<open>None\<close>, with the collection upserted. A call can raise instead: \<open>KeyError\<close> in the
  loop, or the store's error from \<open>upsert\<close>; both leave the collection as it was. The
  result is the pair of what the call returned or raised and the retriever afterwards.
  (The progress lines it prints are not modelled.)
\<close>

definition add_documents ::
  "'x list retriever \<Rightarrow> 'x list article list \<Rightarrow> (error + pyval) \<times> 'x list retriever" where
  "add_documents self articles =
     (case add_documents_loop 0 articles ([], [], [], []) of
        Inl e \<Rightarrow> (Inl e, self)
      | Inr (documents, embeddings, metadatas, ids) \<Rightarrow>
          (case collection_upsert documents embeddings metadatas ids (collection self) of
             Inl e \<Rightarrow> (Inl e, self)
           | Inr c \<Rightarrow> (Inr PyNone, self\<lparr>collection := c\<rparr>)))"

text \<open>
  \<open>query\<close>: with an embedder the query text is embedded by it and the collection is
  queried by vector; without one, by text. \<open>n_results\<close> is a number of results, a
  natural number.
\<close>

definition query ::
  "('v, 'd::linorder) chroma_env \<Rightarrow> 'v retriever \<Rightarrow> string \<Rightarrow> nat \<Rightarrow> 'v embedder option
     \<Rightarrow> 'd query_result" where
  "query env self query_text n_results emb =
     (case emb of
        Some e \<Rightarrow>
          collection_query_embeddings env [embed_text e query_text] n_results (collection self)
      | None \<Rightarrow>
          collection_query_texts env [query_text] n_results (collection self))"

text \<open>
  \<open>query_to_dataframe\<close>: one row per metadata dict of the first inner list, when
  \<open>results["metadatas"]\<close> is neither \<open>None\<close> nor empty. The DataFrame is the list of its
  rows; a row is a dict with the four keys below.
\<close>

definition result_row :: "str_dict \<Rightarrow> str_dict" where
  "result_row metadata =
     [(''title'', dict_get metadata ''title'' ''''),
      (''description'', dict_get metadata ''description'' ''''),
      (''link'', dict_get metadata ''link'' ''''),
      (''date_published'', dict_get metadata ''published'' '''')]"

definition query_to_dataframe ::
  "('v, 'd::linorder) chroma_env \<Rightarrow> 'v retriever \<Rightarrow> string \<Rightarrow> nat \<Rightarrow> 'v embedder option
     \<Rightarrow> str_dict list" where
  "query_to_dataframe env self query_text n_results emb =
     (let results = query env self query_text n_results emb
      in case res_metadatas results of
           None \<Rightarrow> []
         | Some [] \<Rightarrow> []
         | Some (first # others) \<Rightarrow> map result_row first)"

text \<open>\<open>get_collection_stats\<close>: a new dict with three keys.\<close>

definition get_collection_stats :: "'v retriever \<Rightarrow> (string \<times> pyval) list" where
  "get_collection_stats self =
     (let count = collection_count (collection self)
      in [(''collection_name'', PyStr (collection_name self)),
          (''document_count'', PyInt count),
          (''persist_directory'', PyStr (persist_directory self))])"


section \<open>pipeline.py\<close>

text \<open>
  The LangChain pipeline. \<open>self.vectorstore\<close> is \<open>None\<close> after \<open>__init__\<close> and is
  assigned by \<open>create_vectorstore\<close> and \<open>load_vectorstore\<close>. The vector store is
  LangChain's: its constructors (\<open>Chroma.from_documents\<close>, \<open>Chroma(...)\<close>) and its
  method \<open>similarity_search\<close> are parameters, and each of them may raise.
\<close>

record langchain_document =
  page_content :: string
  doc_metadata :: str_dict

record 'vs pipeline =
  pl_model_name :: string
  pl_persist_directory :: string
  vectorstore :: "'vs option"

definition pipeline_init :: "string \<Rightarrow> string \<Rightarrow> 'vs pipeline" where
  "pipeline_init name dir =
     \<lparr>pl_model_name = name, pl_persist_directory = dir, vectorstore = None\<rparr>"

definition load_articles_as_documents :: "'v article list \<Rightarrow> langchain_document list" where
  "load_articles_as_documents articles =
     map (\<lambda>a. \<lparr>page_content = title_nl_description a, doc_metadata = article_metadata a\<rparr>)
         articles"

text \<open>
  \<open>create_vectorstore\<close> and \<open>load_vectorstore\<close> assign \<open>self.vectorstore\<close> after the
  constructor has returned: when it raises, the attribute keeps its value. The result is
  the pair of what the call returned or raised and the pipeline afterwards.
\<close>

definition create_vectorstore ::
  "(langchain_document list \<Rightarrow> string \<Rightarrow> error + 'vs) \<Rightarrow> 'vs pipeline
     \<Rightarrow> langchain_document list \<Rightarrow> (error + 'vs) \<times> 'vs pipeline" where
  "create_vectorstore from_documents self documents =
     (case from_documents documents (pl_persist_directory self) of
        Inl e \<Rightarrow> (Inl e, self)
      | Inr vs \<Rightarrow> (Inr vs, self\<lparr>vectorstore := Some vs\<rparr>))"

definition load_vectorstore ::
  "(string \<Rightarrow> error + 'vs) \<Rightarrow> 'vs pipeline \<Rightarrow> (error + 'vs) \<times> 'vs pipeline" where
  "load_vectorstore open_store self =
     (case open_store (pl_persist_directory self) of
        Inl e \<Rightarrow> (Inl e, self)
      | Inr vs \<Rightarrow> (Inr vs, self\<lparr>vectorstore := Some vs\<rparr>))"

text \<open>
  \<open>query\<close> tests \<open>self.vectorstore is None\<close> first and raises \<open>ValueError\<close>;
  \<open>query_to_dataframe\<close> calls \<open>query\<close> and shapes its documents into rows, so the
  exception passes through it. \<open>run_pipeline\<close> creates the store and then queries.
\<close>

definition pipeline_query ::
  "('vs \<Rightarrow> string \<Rightarrow> int \<Rightarrow> error + langchain_document list) \<Rightarrow> 'vs pipeline \<Rightarrow> string
     \<Rightarrow> int \<Rightarrow> error + langchain_document list" where
  "pipeline_query similarity_search self query_text k =
     (case vectorstore self of
        None \<Rightarrow>
          Inl (ValueError
            ''Vector store not initialized. Call create_vectorstore or load_vectorstore first.'')
      | Some vs \<Rightarrow> similarity_search vs query_text k)"

definition pipeline_query_to_dataframe ::
  "('vs \<Rightarrow> string \<Rightarrow> int \<Rightarrow> error + langchain_document list) \<Rightarrow> 'vs pipeline \<Rightarrow> string
     \<Rightarrow> int \<Rightarrow> error + str_dict list" where
  "pipeline_query_to_dataframe similarity_search self query_text k =
     (case pipeline_query similarity_search self query_text k of
        Inl e \<Rightarrow> Inl e
      | Inr results \<Rightarrow> Inr (map (\<lambda>doc. result_row (doc_metadata doc)) results))"

definition run_pipeline ::
  "(langchain_document list \<Rightarrow> string \<Rightarrow> error + 'vs)
     \<Rightarrow> ('vs \<Rightarrow> string \<Rightarrow> int \<Rightarrow> error + langchain_document list)
     \<Rightarrow> 'vs pipeline \<Rightarrow> 'v article list \<Rightarrow> string \<Rightarrow> int
     \<Rightarrow> (error + str_dict list) \<times> 'vs pipeline" where
  "run_pipeline from_documents similarity_search self articles query_text k =
     (let documents = load_articles_as_documents articles
      in case create_vectorstore from_documents self documents of
           (Inl e, self') \<Rightarrow> (Inl e, self')
         | (Inr vs, self') \<Rightarrow>
             (pipeline_query_to_dataframe similarity_search self' query_text k, self'))"


section \<open>Observations and example values\<close>

text \<open>
  The record that \<open>add_documents\<close> builds for the article at position \<open>idx\<close> whose
  embedding is \<open>e\<close>.
\<close>

definition article_entry :: "nat \<Rightarrow> 'v article \<Rightarrow> 'v \<Rightarrow> 'v entry" where
  "article_entry idx a e =
     \<lparr>entry_id = article_id idx, entry_document = document_text a,
      entry_embedding = e, entry_metadata = article_metadata a\<rparr>"

text \<open>
  The records of a whole batch: position \<open>i\<close> pairs the \<open>i\<close>-th article with the
  \<open>i\<close>-th embedding.
\<close>

definition batch_entries :: "'v article list \<Rightarrow> 'v list \<Rightarrow> 'v entry list" where
  "batch_entries articles es =
     map (\<lambda>(i, a, e). article_entry i a e) (zip [0..<length articles] (zip articles es))"

text \<open>
  The vector a query is ranked against: the embedder's embedding of the query text, or
  the store's own when no embedder is passed.
\<close>

definition query_vector :: "('v, 'd) chroma_env \<Rightarrow> string \<Rightarrow> 'v embedder option \<Rightarrow> 'v" where
  "query_vector env query_text emb =
     (case emb of Some e \<Rightarrow> embed_text e query_text | None \<Rightarrow> default_embedding env query_text)"

text \<open>
  The number that a string of decimal digits denotes, and the test for a decimal digit:
  the reading of \<open>{positional_index}\<close> in the id \<open>article_{positional_index}\<close>.
\<close>

definition is_digit :: "char \<Rightarrow> bool" where
  "is_digit ch = (ch \<in> set ''0123456789'')"

definition digit_value :: "char \<Rightarrow> nat" where
  "digit_value ch = of_char ch - 48"

definition decimal_value :: "string \<Rightarrow> nat" where
  "decimal_value s = foldl (\<lambda>acc ch. 10 * acc + digit_value ch) 0 s"

text \<open>
  What a caller sees of a call that raised: the class name of the exception.
\<close>

definition raised_name :: "error + 'a \<Rightarrow> string option" where
  "raised_name r = (case r of Inl e \<Rightarrow> Some (exception_name e) | Inr v \<Rightarrow> None)"

text \<open>The keys of a dict, in order.\<close>

definition keys :: "(string \<times> 'a) list \<Rightarrow> string list" where
  "keys d = map fst d"

text \<open>
  Example inputs: a tokenizer that knows one encoding and makes one token of every
  character; the two documents of the spec's end-to-end scenario, with two-dimensional
  integer vectors standing in for embeddings, and a third document with a vector of
  three components; a store whose distance is the negated dot product; a retriever on a
  fresh storage location; a LangChain vector store that is the list of its documents,
  cannot be built from no documents, is empty when opened on a directory without data,
  and returns its first \<open>k\<close> documents.
\<close>

definition one_token_per_char :: "string \<Rightarrow> char list" where
  "one_token_per_char t = t"

definition example_encoding :: "char tokenizer" where
  "example_encoding name =
     (if name = ''cl100k_base'' then Inr one_token_per_char
      else Inl (ValueError ''Unknown encoding''))"

definition economy_article :: "int list article" where
  "economy_article =
     \<lparr>title = Some ''Economia crece 3%'', description = Some ''El PBI subio'',
      link = Some ''https://x/1'', published = Some ''2025-10-16'',
      text_key = None, embedding = Some [1, 0]\<rparr>"

definition football_article :: "int list article" where
  "football_article =
     \<lparr>title = Some ''Futbol: final hoy'', description = Some ''El equipo juega esta noche'',
      link = Some ''https://x/2'', published = Some ''2025-10-16'',
      text_key = None, embedding = Some [0, 1]\<rparr>"

definition weather_article :: "int list article" where
  "weather_article =
     \<lparr>title = Some ''Clima: lluvia en Lima'', description = Some ''Se esperan lluvias'',
      link = Some ''https://x/3'', published = Some ''2025-10-17'',
      text_key = None, embedding = Some [1, 0, 0]\<rparr>"

definition neg_dot :: "int list \<Rightarrow> int list \<Rightarrow> int" where
  "neg_dot a b = - sum_list (map2 (*) a b)"

definition first_axis :: "string \<Rightarrow> int list" where
  "first_axis t = [1, 0]"

definition example_env :: "(int list, int) chroma_env" where
  "example_env = \<lparr>distance = neg_dot, default_embedding = first_axis\<rparr>"

definition fresh_retriever :: "int list retriever" where
  "fresh_retriever = retriever_init Map.empty ''rpp_news'' ''./data/chromadb''"

definition first_k ::
  "langchain_document list \<Rightarrow> string \<Rightarrow> int \<Rightarrow> error + langchain_document list" where
  "first_k vs query_text k = Inr (take (nat k) vs)"

definition store_documents ::
  "langchain_document list \<Rightarrow> string \<Rightarrow> error + langchain_document list" where
  "store_documents documents dir =
     (if documents = [] then Inl (ValueError ''Expected IDs to be a non-empty list'')
      else Inr documents)"

definition open_empty_store :: "string \<Rightarrow> error + langchain_document list" where
  "open_empty_store dir = Inr []"

definition fresh_pipeline :: "langchain_document list pipeline" where
  "fresh_pipeline =
     pipeline_init ''sentence-transformers/all-MiniLM-L6-v2'' ''./data/langchain_chromadb''"

definition ingested_retriever :: "int list retriever" where
  "ingested_retriever =
     snd (add_documents fresh_retriever [economy_article, football_article])"


section \<open>Upsert keeps one record per id\<close>

text \<open>
  One upsert adds the id of its record to the ids of the collection and keeps them
  distinct; it stores the record under its id and leaves every other id as it was.
  A batch is a fold of single upserts, so the same holds for a batch.
\<close>

lemma put_record_ids:
  "set (map entry_id (put_record r c)) = insert (entry_id r) (set (map entry_id c))"
  by (induction c) auto

lemma put_record_distinct:
  "distinct (map entry_id c) \<Longrightarrow> distinct (map entry_id (put_record r c))"
proof (induction c)
  case Nil
  then show ?case by simp
next
  case (Cons x xs)
  show ?case
  proof (cases "entry_id x = entry_id r")
    case True
    with Cons.prems show ?thesis by simp
  next
    case False
    have "entry_id x \<notin> set (map entry_id (put_record r xs))"
      using False Cons.prems by (simp only: put_record_ids) auto
    with False Cons show ?thesis by simp
  qed
qed

lemma put_record_length:
  "length (put_record r c) =
     (if entry_id r \<in> set (map entry_id c) then length c else Suc (length c))"
  by (induction c) auto

lemma collection_get_put_same:
  "collection_get (put_record r c) (entry_id r) = Some r"
  by (induction c) (auto simp: collection_get_def)

lemma collection_get_put_other:
  "entry_id r \<noteq> i \<Longrightarrow> collection_get (put_record r c) i = collection_get c i"
  by (induction c) (auto simp: collection_get_def)

lemma put_record_idem: "put_record r (put_record r c) = put_record r c"
  by (induction c) auto

lemma fold_put_distinct:
  "distinct (map entry_id c) \<Longrightarrow> distinct (map entry_id (fold put_record rs c))"
  by (induction rs arbitrary: c) (simp_all add: put_record_distinct)

lemma fold_put_get_other:
  "i \<notin> set (map entry_id rs) \<Longrightarrow>
   collection_get (fold put_record rs c) i = collection_get c i"
  by (induction rs arbitrary: c) (auto simp: collection_get_put_other)

lemma fold_put_get:
  "distinct (map entry_id rs) \<Longrightarrow> r \<in> set rs \<Longrightarrow>
   collection_get (fold put_record rs c) (entry_id r) = Some r"
proof (induction rs arbitrary: c)
  case Nil
  then show ?case by simp
next
  case (Cons x xs)
  show ?case
  proof (cases "r = x")
    case True
    have "entry_id x \<notin> set (map entry_id xs)" using Cons.prems(1) by simp
    then have "collection_get (fold put_record xs (put_record x c)) (entry_id x)
             = collection_get (put_record x c) (entry_id x)"
      by (rule fold_put_get_other)
    with True show ?thesis by (simp add: collection_get_put_same)
  next
    case False
    with Cons.prems have "r \<in> set xs" "distinct (map entry_id xs)" by auto
    then show ?thesis using Cons.IH by simp
  qed
qed


section \<open>Positional ids\<close>

text \<open>
  The decimal rendering of an index is injective, so the ids of one batch are pairwise
  different.
\<close>

lemma digit_char_inj:
  "a < 10 \<Longrightarrow> b < 10 \<Longrightarrow> digit_char a = digit_char b \<Longrightarrow> a = b"
  by (simp add: digit_char_def char_of_eq_iff take_bit_eq_mod)

lemma py_str_nonempty: "py_str n \<noteq> []"
  by (subst py_str.simps) simp

lemma py_str_single: "n < 10 \<Longrightarrow> py_str n = [digit_char n]"
  by (subst py_str.simps) simp

lemma py_str_step:
  "\<not> n < 10 \<Longrightarrow> py_str n = py_str (n div 10) @ [digit_char (n mod 10)]"
  by (subst py_str.simps) simp

lemma py_str_inj: "py_str m = py_str n \<Longrightarrow> m = n"
proof (induction m arbitrary: n rule: py_str.induct)
  case (1 m)
  show ?case
  proof (cases "m < 10")
    case small_m: True
    show ?thesis
    proof (cases "n < 10")
      case True
      with small_m "1.prems" show ?thesis
        by (simp add: py_str_single digit_char_inj)
    next
      case False
      with small_m "1.prems" py_str_nonempty [of "n div 10"] show ?thesis
        by (simp add: py_str_single py_str_step)
    qed
  next
    case big_m: False
    show ?thesis
    proof (cases "n < 10")
      case True
      with big_m "1.prems" py_str_nonempty [of "m div 10"] show ?thesis
        by (simp add: py_str_single py_str_step)
    next
      case False
      with big_m "1.prems" have eq: "py_str (m div 10) = py_str (n div 10)"
        and d: "digit_char (m mod 10) = digit_char (n mod 10)"
        by (simp_all add: py_str_step)
      have "m div 10 = n div 10" using "1.IH" [OF big_m eq] .
      moreover have "m mod 10 = n mod 10" using d by (simp add: digit_char_inj)
      ultimately show ?thesis by (metis div_mult_mod_eq)
    qed
  qed
qed

lemma article_id_inj: "article_id i = article_id j \<Longrightarrow> i = j"
  by (simp add: article_id_def py_str_inj)

lemma article_id_distinct: "distinct (map article_id [i..<j])"
  by (simp add: distinct_map inj_on_def) (metis article_id_inj)

lemma digit_char_0: "digit_char 0 = CHR ''0''"
  unfolding digit_char_def by code_simp

lemma article_id_0: "article_id 0 = ''article_0''"
  by (simp add: article_id_def py_str_single digit_char_0)


section \<open>The loop of add_documents\<close>

text \<open>
  When every article carries an embedding the loop returns the four lists, with the ids
  \<open>article_idx\<close>, \<open>article_(idx+1)\<close>, ...; when one article lacks it the loop raises
  \<open>KeyError\<close>.
\<close>

lemma add_documents_loop_ok:
  "map embedding articles = map Some es \<Longrightarrow>
   add_documents_loop idx articles (ds, vs, ms, is) =
     Inr (ds @ map document_text articles, vs @ es,
          ms @ map article_metadata articles,
          is @ map article_id [idx..<idx + length articles])"
proof (induction articles arbitrary: idx ds vs ms "is" es)
  case Nil
  then show ?case by simp
next
  case (Cons a rest)
  then obtain e es' where es: "es = e # es'" "embedding a = Some e"
    "map embedding rest = map Some es'" by (cases es) auto
  have "[idx..<idx + length (a # rest)] = idx # [Suc idx..<Suc idx + length rest]"
    by (subst upt_rec) simp
  with es Cons.IH [OF es(3)] show ?case by simp
qed

lemma add_documents_loop_err:
  "None \<in> set (map embedding articles) \<Longrightarrow>
   add_documents_loop idx articles acc = Inl (KeyError ''embedding'')"
proof (induction articles arbitrary: idx acc)
  case Nil
  then show ?case by simp
next
  case (Cons a rest)
  obtain ds vs ms "is" where acc: "acc = (ds, vs, ms, is)" by (cases acc) auto
  show ?case using Cons by (cases "embedding a") (auto simp: acc)
qed

lemma make_entries_articles:
  "length es = length articles \<Longrightarrow>
   make_entries (map document_text articles) es (map article_metadata articles)
     (map article_id [idx..<idx + length articles]) =
   map (\<lambda>(i, a, e). article_entry i a e) (zip [idx..<idx + length articles] (zip articles es))"
proof (induction es articles arbitrary: idx rule: list_induct2)
  case Nil
  then show ?case by (simp add: make_entries_def)
next
  case (Cons e es a articles)
  have u: "[idx..<idx + length (a # articles)] = idx # [Suc idx..<Suc idx + length articles]"
    by (subst upt_rec) simp
  show ?case
    using Cons.IH [of "Suc idx"]
    by (simp only: u) (simp add: make_entries_def article_entry_def)
qed

section \<open>The store accepts or refuses a record\<close>

text \<open>
  A record whose id is new is appended. A write keeps a collection of one dimension in
  that dimension, so a batch of vectors of the collection's dimension is accepted record
  by record and the result is the fold of the writes; a vector of another dimension is
  refused by a collection that holds a record. Whatever is accepted, the ids stay
  pairwise different.
\<close>

lemma put_record_fresh:
  "entry_id r \<notin> set (map entry_id c) \<Longrightarrow> put_record r c = c @ [r]"
  by (induction c) auto

lemma fold_put_fresh:
  "distinct (map entry_id rs) \<Longrightarrow> set (map entry_id rs) \<inter> set (map entry_id c) = {} \<Longrightarrow>
   fold put_record rs c = c @ rs"
proof (induction rs arbitrary: c)
  case Nil
  then show ?case by simp
next
  case (Cons r rs)
  have fresh: "entry_id r \<notin> set (map entry_id c)" using Cons.prems(2) by auto
  have step: "put_record r c = c @ [r]" using fresh by (rule put_record_fresh)
  have "set (map entry_id rs) \<inter> set (map entry_id (c @ [r])) = {}"
    using Cons.prems by auto
  with Cons.IH [of "c @ [r]"] Cons.prems(1) step show ?case by simp
qed

lemma put_record_set: "set (put_record r c) \<subseteq> insert r (set c)"
  by (induction c) auto

lemma put_record_dimension:
  assumes "\<forall>x \<in> set c. length (entry_embedding x) = n" and "length (entry_embedding r) = n"
  shows "\<forall>x \<in> set (put_record r c). length (entry_embedding x) = n"
  using assms put_record_set [of r c] by auto

lemma collection_dimension_uniform:
  "\<forall>x \<in> set c. length (entry_embedding x) = n \<Longrightarrow>
   collection_dimension c = None \<or> collection_dimension c = Some n"
  by (cases c) (simp_all add: collection_dimension_def)

lemma upsert_record_accepts:
  assumes "length (entry_embedding r) = n"
    and "\<forall>x \<in> set c. length (entry_embedding x) = n"
  shows "upsert_record r c = Inr (put_record r c)"
  using assms collection_dimension_uniform [OF assms(2)]
  by (auto simp: upsert_record_def)

lemma upsert_record_rejects:
  assumes "c = x # xs" and "length (entry_embedding r) \<noteq> length (entry_embedding x)"
  shows "upsert_record r c = Inl DimensionMismatchError"
  using assms by (simp add: upsert_record_def collection_dimension_def)

lemma upsert_record_result:
  "upsert_record r c = Inr c' \<Longrightarrow> c' = put_record r c"
  by (auto simp: upsert_record_def split: if_splits option.splits)

lemma upsert_records_accepts:
  assumes "\<forall>r \<in> set rs. length (entry_embedding r) = n"
    and "\<forall>x \<in> set c. length (entry_embedding x) = n"
  shows "upsert_records rs c = Inr (fold put_record rs c)"
  using assms
proof (induction rs arbitrary: c)
  case Nil
  then show ?case by simp
next
  case (Cons r rs)
  have acc: "upsert_record r c = Inr (put_record r c)"
    using Cons.prems by (intro upsert_record_accepts [where n = n]) auto
  have "\<forall>x \<in> set (put_record r c). length (entry_embedding x) = n"
    using Cons.prems by (intro put_record_dimension) auto
  with Cons.IH [of "put_record r c"] Cons.prems(1) acc show ?case by simp
qed

lemma upsert_records_distinct:
  "upsert_records rs c = Inr c' \<Longrightarrow> distinct (map entry_id c) \<Longrightarrow>
   distinct (map entry_id c')"
proof (induction rs arbitrary: c)
  case Nil
  then show ?case by simp
next
  case (Cons r rs)
  from Cons.prems(1) obtain c1 where step: "upsert_record r c = Inr c1"
    and rest: "upsert_records rs c1 = Inr c'"
    by (auto split: sum.splits)
  have "c1 = put_record r c" using step by (rule upsert_record_result)
  then have "distinct (map entry_id c1)"
    using Cons.prems(2) by (simp add: put_record_distinct)
  with Cons.IH [OF rest] show ?case .
qed

section \<open>The decimal digits of an index\<close>

text \<open>
  \<open>py_str n\<close> consists of decimal digits, denotes \<open>n\<close>, and starts with \<open>0\<close> only
  when \<open>n\<close> is 0: it is the decimal numeral of \<open>n\<close>.
\<close>

lemma digit_chars:
  "digit_char 0 = CHR ''0''" "digit_char (Suc 0) = CHR ''1''" "digit_char 2 = CHR ''2''"
  "digit_char 3 = CHR ''3''" "digit_char 4 = CHR ''4''" "digit_char 5 = CHR ''5''"
  "digit_char 6 = CHR ''6''" "digit_char 7 = CHR ''7''" "digit_char 8 = CHR ''8''"
  "digit_char 9 = CHR ''9''"
  unfolding digit_char_def by code_simp+

lemma digit_char_cases:
  "d < 10 \<Longrightarrow> digit_char d \<in> set ''0123456789'' \<and> of_char (digit_char d) = (48 + d :: nat)"
proof -
  assume "d < 10"
  then have "d \<in> {0, Suc 0, 2, 3, 4, 5, 6, 7, 8, 9}" by auto
  then show ?thesis
    by (elim insertE emptyE) (simp_all add: digit_chars)
qed

lemma is_digit_digit_char: "d < 10 \<Longrightarrow> is_digit (digit_char d)"
  using digit_char_cases [of d] by (simp add: is_digit_def)

lemma digit_value_digit_char: "d < 10 \<Longrightarrow> digit_value (digit_char d) = d"
  using digit_char_cases [of d] by (simp add: digit_value_def)

lemma decimal_value_snoc:
  "decimal_value (s @ [ch]) = 10 * decimal_value s + digit_value ch"
  by (simp add: decimal_value_def)

lemma py_str_value: "decimal_value (py_str n) = n"
proof (induction n rule: py_str.induct)
  case (1 n)
  show ?case
  proof (cases "n < 10")
    case True
    then show ?thesis
      by (simp add: py_str_single decimal_value_def digit_value_digit_char)
  next
    case False
    with "1.IH" show ?thesis
      by (simp add: py_str_step decimal_value_snoc digit_value_digit_char)
  qed
qed

lemma py_str_digits: "list_all is_digit (py_str n)"
proof (induction n rule: py_str.induct)
  case (1 n)
  show ?case
  proof (cases "n < 10")
    case True
    then show ?thesis by (simp add: py_str_single is_digit_digit_char)
  next
    case False
    with "1.IH" show ?thesis by (simp add: py_str_step is_digit_digit_char)
  qed
qed

lemma py_str_leading: "hd (py_str n) = CHR ''0'' \<Longrightarrow> n = 0"
proof (induction n rule: py_str.induct)
  case (1 n)
  show ?case
  proof (cases "n < 10")
    case True
    with "1.prems" have "digit_char n = digit_char 0"
      by (simp add: py_str_single digit_char_0)
    with True show ?thesis by (simp add: digit_char_inj)
  next
    case False
    with "1.prems" have "hd (py_str (n div 10)) = CHR ''0''"
      by (simp add: py_str_step py_str_nonempty)
    with "1.IH" False have "n div 10 = 0" by simp
    with False show ?thesis by simp
  qed
qed

section \<open>The records of a batch\<close>

lemma entry_id_article_entry: "entry_id (article_entry i a e) = article_id i"
  by (simp add: article_entry_def)

lemma batch_entries_ids:
  assumes "length es = length articles"
  shows "map entry_id (batch_entries articles es) = map article_id [0..<length articles]"
proof -
  have "map entry_id (batch_entries articles es) =
          map article_id (map fst (zip [0..<length articles] (zip articles es)))"
    by (simp add: batch_entries_def entry_id_article_entry case_prod_beta comp_def)
  also have "map fst (zip [0..<length articles] (zip articles es)) = [0..<length articles]"
    using assms by simp
  finally show ?thesis .
qed

lemma batch_entries_embeddings:
  assumes "length es = length articles"
  shows "map entry_embedding (batch_entries articles es) = es"
proof -
  have "map entry_embedding (batch_entries articles es) =
          map snd (map snd (zip [0..<length articles] (zip articles es)))"
    by (simp add: batch_entries_def article_entry_def case_prod_beta comp_def)
  also have "map snd (zip [0..<length articles] (zip articles es)) = zip articles es"
    using assms by simp
  also have "map snd (zip articles es) = es"
    using assms by simp
  finally show ?thesis .
qed

lemma batch_entries_distinct:
  "length es = length articles \<Longrightarrow> distinct (map entry_id (batch_entries articles es))"
  by (simp only: batch_entries_ids article_id_distinct)

lemma batch_entries_nth:
  "length es = length articles \<Longrightarrow> i < length articles \<Longrightarrow>
   batch_entries articles es ! i = article_entry i (articles ! i) (es ! i)"
  by (simp add: batch_entries_def)

lemma batch_entries_length:
  "length es = length articles \<Longrightarrow> length (batch_entries articles es) = length articles"
  by (simp add: batch_entries_def)

lemma embeddings_present:
  assumes "None \<notin> set (map embedding articles)"
  shows "map embedding articles = map Some (map (\<lambda>a. the (embedding a)) articles)"
  using assms by (induction articles) auto

section \<open>add_documents: what a call returns or raises\<close>

text \<open>
  With every embedding present, no vector empty and all of them of the collection's
  dimension, a call on a non-empty batch returns \<open>None\<close> and has upserted the records
  of the batch, one after the other. A call raises \<open>KeyError\<close> when an article lacks
  its embedding, the store's \<open>ValueError\<close> on the empty batch, and the store's
  \<open>DimensionMismatchError\<close> on a vector of another dimension; a call that raises
  leaves the retriever as it was.
\<close>

lemma add_documents_accepted:
  assumes ne: "articles \<noteq> []" and emb: "map embedding articles = map Some es"
    and dims: "\<forall>e \<in> set es. e \<noteq> [] \<and> length e = n"
    and coll: "\<forall>x \<in> set (collection self). length (entry_embedding x) = n"
  shows "add_documents self articles =
           (Inr PyNone,
            self\<lparr>collection := fold put_record (batch_entries articles es) (collection self)\<rparr>)"
proof -
  have len: "length es = length articles"
    using emb by (metis length_map)
  have loop: "add_documents_loop 0 articles ([], [], [], []) =
          Inr (map document_text articles, es, map article_metadata articles,
               map article_id [0..<length articles])"
    using add_documents_loop_ok [OF emb, of 0 "[]" "[]" "[]" "[]"] by simp
  have valid: "[] \<notin> set es"
    using dims by auto
  have entries: "make_entries (map document_text articles) es (map article_metadata articles)
                   (map article_id [0..<length articles]) = batch_entries articles es"
    using make_entries_articles [OF len, of 0] by (simp add: batch_entries_def)
  have "\<forall>r \<in> set (batch_entries articles es). length (entry_embedding r) = n"
  proof
    fix r assume "r \<in> set (batch_entries articles es)"
    then have "entry_embedding r \<in> set (map entry_embedding (batch_entries articles es))"
      by simp
    then have "entry_embedding r \<in> set es"
      by (simp only: batch_entries_embeddings [OF len])
    with dims show "length (entry_embedding r) = n" by auto
  qed
  then have ups: "upsert_records (batch_entries articles es) (collection self) =
                    Inr (fold put_record (batch_entries articles es) (collection self))"
    using coll by (rule upsert_records_accepts)
  have "collection_upsert (map document_text articles) es (map article_metadata articles)
          (map article_id [0..<length articles]) (collection self) =
        Inr (fold put_record (batch_entries articles es) (collection self))"
    unfolding collection_upsert_def entries ups using ne valid by simp
  then show ?thesis
    by (simp add: add_documents_def loop)
qed

lemma add_documents_missing:
  "None \<in> set (map embedding articles) \<Longrightarrow>
   add_documents self articles = (Inl (KeyError ''embedding''), self)"
  by (simp add: add_documents_def add_documents_loop_err del: set_map)

lemma add_documents_empty:
  "add_documents self [] = (Inl (ValueError ''Expected IDs to be a non-empty list''), self)"
  by (simp add: add_documents_def collection_upsert_def)

lemma add_documents_value:
  "fst (add_documents self articles) = Inr PyNone
   \<or> (\<exists>e. fst (add_documents self articles) = Inl e)"
  by (simp add: add_documents_def split: sum.splits prod.splits)

lemma add_documents_raise_keeps:
  "fst (add_documents self articles) = Inl e \<Longrightarrow> snd (add_documents self articles) = self"
  by (auto simp: add_documents_def split: sum.splits prod.splits)

lemma add_documents_distinct:
  assumes "distinct (map entry_id (collection self))"
  shows "distinct (map entry_id (collection (snd (add_documents self articles))))"
proof (cases "add_documents_loop 0 articles ([], [], [], [])")
  case (Inl e)
  then show ?thesis using assms by (simp add: add_documents_def)
next
  case (Inr lists)
  obtain ds vs ms "is" where lists: "lists = (ds, vs, ms, is)" by (cases lists) auto
  show ?thesis
  proof (cases "collection_upsert ds vs ms is (collection self)")
    case (Inl e)
    then show ?thesis using assms Inr lists by (simp add: add_documents_def)
  next
    case c: (Inr c)
    then have "upsert_records (make_entries ds vs ms is) (collection self) = Inr c"
      by (simp add: collection_upsert_def split: if_splits)
    then have "distinct (map entry_id c)"
      using assms by (rule upsert_records_distinct)
    then show ?thesis using Inr lists c by (simp add: add_documents_def)
  qed
qed

lemma add_documents_single:
  assumes "embedding d = Some e" and "e \<noteq> []"
    and "\<forall>x \<in> set (collection self). length (entry_embedding x) = length e"
  shows "add_documents self [d] =
     (Inr PyNone, self\<lparr>collection := put_record (article_entry 0 d e) (collection self)\<rparr>)"
  using add_documents_accepted [of "[d]" "[e]" "length e" self] assms
  by (simp add: batch_entries_def)

lemma add_documents_refused:
  assumes "embedding d = Some e" and "e \<noteq> []"
    and "collection self = x # xs" and "length e \<noteq> length (entry_embedding x)"
  shows "add_documents self [d] = (Inl DimensionMismatchError, self)"
proof -
  have "upsert_record (article_entry 0 d e) (collection self) = Inl DimensionMismatchError"
    using assms(3) by (rule upsert_record_rejects) (simp add: article_entry_def assms(4))
  then show ?thesis
    using assms(1,2)
    by (simp add: add_documents_def collection_upsert_def make_entries_def article_entry_def)
qed

section \<open>The example values, evaluated\<close>

lemma article_id_1: "article_id (Suc 0) = ''article_1''"
  by (simp add: article_id_def py_str_single digit_chars)

lemma example_embeddings:
  "embedding economy_article = Some [1, 0]" "embedding football_article = Some [0, 1]"
  "embedding weather_article = Some [1, 0, 0]"
  by (simp_all add: economy_article_def football_article_def weather_article_def)

lemma fresh_retriever_collection: "collection fresh_retriever = []"
  by (simp add: fresh_retriever_def retriever_init_def)

lemma ingested_retriever_collection:
  "collection ingested_retriever =
     [article_entry 0 economy_article [1, 0], article_entry 1 football_article [0, 1]]"
proof -
  have "map embedding [economy_article, football_article] = map Some [[1, 0], [0, 1]]"
    by (simp add: example_embeddings)
  from add_documents_accepted [OF _ this, of 2 fresh_retriever]
  show ?thesis
    by (simp add: ingested_retriever_def batch_entries_def fresh_retriever_collection
          entry_id_article_entry article_id_0 article_id_1 upt_rec)
qed

lemma ingested_retriever_ids:
  "map entry_id (collection ingested_retriever) = [''article_0'', ''article_1'']"
  by (simp add: ingested_retriever_collection entry_id_article_entry article_id_0 article_id_1)

lemma article_entry_record:
  "article_entry idx d e =
     \<lparr>entry_id = ''article_'' @ py_str idx,
      entry_document =
        (case text_key d of
           Some t \<Rightarrow> t
         | None \<Rightarrow> (case title d of Some t \<Rightarrow> t | None \<Rightarrow> '''') @ [CHR 0x0A]
                    @ (case description d of Some t \<Rightarrow> t | None \<Rightarrow> '''')),
      entry_embedding = e,
      entry_metadata =
        [(''title'', case title d of Some t \<Rightarrow> t | None \<Rightarrow> ''''),
         (''description'', case description d of Some t \<Rightarrow> t | None \<Rightarrow> ''''),
         (''link'', case link d of Some t \<Rightarrow> t | None \<Rightarrow> ''''),
         (''published'', case published d of Some t \<Rightarrow> t | None \<Rightarrow> '''')]\<rparr>"
  by (simp add: article_entry_def article_id_def document_text_def title_nl_description_def
        article_metadata_def get_or_def split: option.splits)

lemma py_str_0: "py_str 0 = ''0''"
  by (simp add: py_str_single digit_chars)

lemma py_str_1: "py_str (Suc 0) = ''1''"
  by (simp add: py_str_single digit_chars)

lemma py_str_12: "py_str 12 = ''12''"
  by (simp add: py_str_step py_str_single digit_chars)

lemma article_entry_first:
  "article_entry 0 d e =
     \<lparr>entry_id = ''article_0'',
      entry_document =
        (case text_key d of
           Some t \<Rightarrow> t
         | None \<Rightarrow> (case title d of Some t \<Rightarrow> t | None \<Rightarrow> '''') @ [CHR 0x0A]
                    @ (case description d of Some t \<Rightarrow> t | None \<Rightarrow> '''')),
      entry_embedding = e,
      entry_metadata =
        [(''title'', case title d of Some t \<Rightarrow> t | None \<Rightarrow> ''''),
         (''description'', case description d of Some t \<Rightarrow> t | None \<Rightarrow> ''''),
         (''link'', case link d of Some t \<Rightarrow> t | None \<Rightarrow> ''''),
         (''published'', case published d of Some t \<Rightarrow> t | None \<Rightarrow> '''')]\<rparr>"
  by (simp add: article_entry_record py_str_0)

lemma example_records:
  "article_entry 0 economy_article [1, 0] =
     \<lparr>entry_id = ''article_0'',
      entry_document = ''Economia crece 3%'' @ [CHR 0x0A] @ ''El PBI subio'',
      entry_embedding = [1, 0],
      entry_metadata =
        [(''title'', ''Economia crece 3%''), (''description'', ''El PBI subio''),
         (''link'', ''https://x/1''), (''published'', ''2025-10-16'')]\<rparr>"
  "article_entry (Suc 0) football_article [0, 1] =
     \<lparr>entry_id = ''article_1'',
      entry_document = ''Futbol: final hoy'' @ [CHR 0x0A] @ ''El equipo juega esta noche'',
      entry_embedding = [0, 1],
      entry_metadata =
        [(''title'', ''Futbol: final hoy''), (''description'', ''El equipo juega esta noche''),
         (''link'', ''https://x/2''), (''published'', ''2025-10-16'')]\<rparr>"
  by (simp_all add: article_entry_record py_str_0 py_str_1 economy_article_def
        football_article_def)

lemma ingested_retriever_records:
  "collection ingested_retriever =
     [\<lparr>entry_id = ''article_0'',
       entry_document = ''Economia crece 3%'' @ [CHR 0x0A] @ ''El PBI subio'',
       entry_embedding = [1, 0],
       entry_metadata =
         [(''title'', ''Economia crece 3%''), (''description'', ''El PBI subio''),
          (''link'', ''https://x/1''), (''published'', ''2025-10-16'')]\<rparr>,
      \<lparr>entry_id = ''article_1'',
       entry_document = ''Futbol: final hoy'' @ [CHR 0x0A] @ ''El equipo juega esta noche'',
       entry_embedding = [0, 1],
       entry_metadata =
         [(''title'', ''Futbol: final hoy''), (''description'', ''El equipo juega esta noche''),
          (''link'', ''https://x/2''), (''published'', ''2025-10-16'')]\<rparr>]"
  unfolding ingested_retriever_collection
  using example_records by simp

lemma example_loop_lists:
  "map document_text [economy_article, football_article] =
     [''Economia crece 3%'' @ [CHR 0x0A] @ ''El PBI subio'',
      ''Futbol: final hoy'' @ [CHR 0x0A] @ ''El equipo juega esta noche'']"
  "map article_metadata [economy_article, football_article] =
     [[(''title'', ''Economia crece 3%''), (''description'', ''El PBI subio''),
       (''link'', ''https://x/1''), (''published'', ''2025-10-16'')],
      [(''title'', ''Futbol: final hoy''), (''description'', ''El equipo juega esta noche''),
       (''link'', ''https://x/2''), (''published'', ''2025-10-16'')]]"
  "map article_id [0..<length [economy_article, football_article]] =
     [''article_0'', ''article_1'']"
  by (simp_all add: document_text_def title_nl_description_def article_metadata_def get_or_def
        economy_article_def football_article_def upt_rec article_id_0 article_id_1)

lemma add_documents_invalid:
  assumes "map embedding articles = map Some es" and "[] \<in> set es"
  shows "add_documents self articles =
           (Inl (ValueError ''Expected each embedding to be a non-empty list''), self)"
proof -
  have len: "length es = length articles"
    using assms(1) by (metis length_map)
  have ne: "articles \<noteq> []"
    using assms(2) len by auto
  have loop: "add_documents_loop 0 articles ([], [], [], []) =
          Inr (map document_text articles, es, map article_metadata articles,
               map article_id [0..<length articles])"
    using add_documents_loop_ok [OF assms(1), of 0 "[]" "[]" "[]" "[]"] by simp
  show ?thesis
    using ne assms(2) by (simp add: add_documents_def loop collection_upsert_def)
qed

section \<open>Ingestion: upsert by id, positional ids, the return value\<close>

text \<open>
  C1. Upsert is idempotent and keyed by id. Against the spec's model of the store: take
  any collection with at most one record per id, and two documents \<open>d1\<close> and \<open>d2\<close>
  that carry embeddings \<open>e1\<close> and \<open>e2\<close> (each stands at position 0 of its batch, so
  both get the id \<open>article_0\<close>; \<open>d2 = d1\<close> is the claim's "twice"). When the vectors
  fit the collection (section 3: \<open>e1\<close> has components, \<open>e2\<close> has the dimension of
  \<open>e1\<close>, and so has every stored vector), ingesting \<open>[d1]\<close> and then \<open>[d2]\<close>
  returns \<open>None\<close> twice; \<open>document_count\<close> after the second call is what it was
  after the first, which is the count before, plus one if the id was new; the record
  stored under \<open>article_0\<close> is the second call's text (the key \<open>text\<close>, else title,
  newline, description), vector and metadata; every other id has the record it had;
  name and directory are unchanged; after each call the ids are pairwise different;
  and with \<open>d2 = d1\<close> the second call changes nothing. When the collection holds a
  record and \<open>e1\<close> has another dimension than it, the call raises
  \<open>DimensionMismatchError\<close> and leaves the retriever as it was. At no point are there
  two records with one id: after \<open>add_documents\<close> on any batch, returned or raised,
  the ids are pairwise different.
\<close>

theorem upsert_idempotent_keyed_by_id:
  assumes "distinct (map entry_id (collection self))"
    and "embedding d1 = Some e1" and "embedding d2 = Some e2"
  shows "(e1 \<noteq> [] \<and> length e2 = length e1
          \<and> (\<forall>x \<in> set (collection self). length (entry_embedding x) = length e1) \<longrightarrow>
          (\<exists>s1 s2.
             add_documents self [d1] = (Inr PyNone, s1)
           \<and> add_documents s1 [d2] = (Inr PyNone, s2)
           \<and> collection_count (collection s2) = collection_count (collection s1)
           \<and> collection_count (collection s1) =
               (if ''article_0'' \<in> set (map entry_id (collection self))
                then collection_count (collection self)
                else collection_count (collection self) + 1)
           \<and> collection_get (collection s2) ''article_0'' =
               Some \<lparr>entry_id = ''article_0'',
                     entry_document =
                       (case text_key d2 of
                          Some t \<Rightarrow> t
                        | None \<Rightarrow> (case title d2 of Some t \<Rightarrow> t | None \<Rightarrow> '''')
                                   @ [CHR 0x0A]
                                   @ (case description d2 of Some t \<Rightarrow> t | None \<Rightarrow> '''')),
                     entry_embedding = e2,
                     entry_metadata =
                       [(''title'', case title d2 of Some t \<Rightarrow> t | None \<Rightarrow> ''''),
                        (''description'',
                           case description d2 of Some t \<Rightarrow> t | None \<Rightarrow> ''''),
                        (''link'', case link d2 of Some t \<Rightarrow> t | None \<Rightarrow> ''''),
                        (''published'',
                           case published d2 of Some t \<Rightarrow> t | None \<Rightarrow> '''')]\<rparr>
           \<and> (\<forall>i. i \<noteq> ''article_0'' \<longrightarrow>
                  collection_get (collection s2) i = collection_get (collection self) i)
           \<and> collection_name s2 = collection_name self
           \<and> persist_directory s2 = persist_directory self
           \<and> distinct (map entry_id (collection s1))
           \<and> distinct (map entry_id (collection s2))
           \<and> (d2 = d1 \<longrightarrow> s2 = s1)))
       \<and> (\<forall>x xs. e1 \<noteq> [] \<and> collection self = x # xs
                  \<and> length e1 \<noteq> length (entry_embedding x) \<longrightarrow>
             add_documents self [d1] = (Inl DimensionMismatchError, self))
       \<and> (\<forall>articles.
             distinct (map entry_id (collection (snd (add_documents self articles)))))"
proof -
  let ?r1 = "article_entry 0 d1 e1" and ?r2 = "article_entry 0 d2 e2"
  let ?c = "collection self"
  let ?s1 = "self\<lparr>collection := put_record ?r1 ?c\<rparr>"
  let ?s2 = "?s1\<lparr>collection := put_record ?r2 (collection ?s1)\<rparr>"
  let ?stored = "\<lparr>entry_id = ''article_0'',
                     entry_document =
                       (case text_key d2 of
                          Some t \<Rightarrow> t
                        | None \<Rightarrow> (case title d2 of Some t \<Rightarrow> t | None \<Rightarrow> '''')
                                   @ [CHR 0x0A]
                                   @ (case description d2 of Some t \<Rightarrow> t | None \<Rightarrow> '''')),
                     entry_embedding = e2,
                     entry_metadata =
                       [(''title'', case title d2 of Some t \<Rightarrow> t | None \<Rightarrow> ''''),
                        (''description'',
                           case description d2 of Some t \<Rightarrow> t | None \<Rightarrow> ''''),
                        (''link'', case link d2 of Some t \<Rightarrow> t | None \<Rightarrow> ''''),
                        (''published'',
                           case published d2 of Some t \<Rightarrow> t | None \<Rightarrow> '''')]\<rparr>"
  have id1: "entry_id ?r1 = ''article_0''" and id2: "entry_id ?r2 = ''article_0''"
    by (simp_all add: entry_id_article_entry article_id_0)
  have r2: "?r2 = ?stored"
    by (simp add: article_entry_record py_str_0)
  have twice: "e1 \<noteq> [] \<and> length e2 = length e1
          \<and> (\<forall>x \<in> set ?c. length (entry_embedding x) = length e1) \<longrightarrow>
          (\<exists>s1 s2.
             add_documents self [d1] = (Inr PyNone, s1)
           \<and> add_documents s1 [d2] = (Inr PyNone, s2)
           \<and> collection_count (collection s2) = collection_count (collection s1)
           \<and> collection_count (collection s1) =
               (if ''article_0'' \<in> set (map entry_id ?c)
                then collection_count ?c else collection_count ?c + 1)
           \<and> collection_get (collection s2) ''article_0'' = Some ?stored
           \<and> (\<forall>i. i \<noteq> ''article_0'' \<longrightarrow>
                  collection_get (collection s2) i = collection_get ?c i)
           \<and> collection_name s2 = collection_name self
           \<and> persist_directory s2 = persist_directory self
           \<and> distinct (map entry_id (collection s1))
           \<and> distinct (map entry_id (collection s2))
           \<and> (d2 = d1 \<longrightarrow> s2 = s1))"
  proof
    assume h: "e1 \<noteq> [] \<and> length e2 = length e1
          \<and> (\<forall>x \<in> set ?c. length (entry_embedding x) = length e1)"
    then have ne1: "e1 \<noteq> []" and ne2: "e2 \<noteq> []" and len: "length e2 = length e1"
      and dim: "\<forall>x \<in> set ?c. length (entry_embedding x) = length e1"
      by auto
    have first: "add_documents self [d1] = (Inr PyNone, ?s1)"
      using assms(2) ne1 dim by (rule add_documents_single)
    have "\<forall>x \<in> set (put_record ?r1 ?c). length (entry_embedding x) = length e1"
      using dim by (rule put_record_dimension) (simp add: article_entry_def)
    then have dim1: "\<forall>x \<in> set (collection ?s1). length (entry_embedding x) = length e2"
      using len by simp
    have second: "add_documents ?s1 [d2] = (Inr PyNone, ?s2)"
      using assms(3) ne2 dim1 by (rule add_documents_single)
    have "entry_id ?r2 \<in> set (map entry_id (put_record ?r1 ?c))"
      by (simp only: put_record_ids id1 id2) simp
    then have count: "collection_count (collection ?s2) = collection_count (collection ?s1)"
      by (simp add: collection_count_def put_record_length)
    have count1: "collection_count (collection ?s1) =
               (if ''article_0'' \<in> set (map entry_id ?c)
                then collection_count ?c else collection_count ?c + 1)"
      using put_record_length [of ?r1 ?c] by (simp add: collection_count_def id1)
    have stored: "collection_get (collection ?s2) ''article_0'' = Some ?r2"
      using collection_get_put_same [of ?r2 "collection ?s1"] by (simp add: id2)
    have others: "\<forall>i. i \<noteq> ''article_0'' \<longrightarrow>
                  collection_get (collection ?s2) i = collection_get ?c i"
    proof (intro allI impI)
      fix i :: string assume i: "i \<noteq> ''article_0''"
      have "collection_get (put_record ?r2 (put_record ?r1 ?c)) i =
              collection_get (put_record ?r1 ?c) i"
        using i by (intro collection_get_put_other) (simp add: id2)
      also have "\<dots> = collection_get ?c i"
        using i by (intro collection_get_put_other) (simp add: id1)
      finally show "collection_get (collection ?s2) i = collection_get ?c i" by simp
    qed
    have ds1: "distinct (map entry_id (collection ?s1))"
      using assms(1) by (simp add: put_record_distinct)
    then have ds2: "distinct (map entry_id (collection ?s2))"
      by (simp add: put_record_distinct)
    have same: "d2 = d1 \<longrightarrow> ?s2 = ?s1"
      using assms(2,3) by (auto simp: put_record_idem)
    have names: "collection_name ?s2 = collection_name self"
      "persist_directory ?s2 = persist_directory self"
      by simp_all
    show "\<exists>s1 s2.
             add_documents self [d1] = (Inr PyNone, s1)
           \<and> add_documents s1 [d2] = (Inr PyNone, s2)
           \<and> collection_count (collection s2) = collection_count (collection s1)
           \<and> collection_count (collection s1) =
               (if ''article_0'' \<in> set (map entry_id ?c)
                then collection_count ?c else collection_count ?c + 1)
           \<and> collection_get (collection s2) ''article_0'' = Some ?stored
           \<and> (\<forall>i. i \<noteq> ''article_0'' \<longrightarrow>
                  collection_get (collection s2) i = collection_get ?c i)
           \<and> collection_name s2 = collection_name self
           \<and> persist_directory s2 = persist_directory self
           \<and> distinct (map entry_id (collection s1))
           \<and> distinct (map entry_id (collection s2))
           \<and> (d2 = d1 \<longrightarrow> s2 = s1)"
      using first second count count1 stored others names ds1 ds2 same
      unfolding r2 by blast
  qed
  have refused: "\<forall>x xs. e1 \<noteq> [] \<and> collection self = x # xs
                  \<and> length e1 \<noteq> length (entry_embedding x) \<longrightarrow>
             add_documents self [d1] = (Inl DimensionMismatchError, self)"
    using add_documents_refused [OF assms(2)] by blast
  have always: "\<forall>articles.
             distinct (map entry_id (collection (snd (add_documents self articles))))"
    using add_documents_distinct [OF assms(1)] by blast
  from twice refused always show ?thesis by blast
qed

theorem upsert_idempotent_keyed_by_id_witness:
  "distinct (map entry_id (collection ingested_retriever))
   \<and> embedding football_article = Some [0, 1]
   \<and> embedding economy_article = Some [1, 0]
   \<and> embedding weather_article = Some [1, 0, 0]
   \<and> map (\<lambda>x. length (entry_embedding x)) (collection ingested_retriever) = [2, 2]
   \<and> (\<exists>s1 s2.
           add_documents ingested_retriever [football_article] = (Inr PyNone, s1)
         \<and> add_documents s1 [economy_article] = (Inr PyNone, s2)
         \<and> collection_count (collection s1) = 2
         \<and> collection_count (collection s2) = 2
         \<and> collection_get (collection s2) ''article_0'' =
             Some \<lparr>entry_id = ''article_0'',
                   entry_document = ''Economia crece 3%'' @ [CHR 0x0A] @ ''El PBI subio'',
                   entry_embedding = [1, 0],
                   entry_metadata =
                     [(''title'', ''Economia crece 3%''), (''description'', ''El PBI subio''),
                      (''link'', ''https://x/1''), (''published'', ''2025-10-16'')]\<rparr>
         \<and> collection_get (collection s2) ''article_1'' =
             Some \<lparr>entry_id = ''article_1'',
                   entry_document =
                     ''Futbol: final hoy'' @ [CHR 0x0A] @ ''El equipo juega esta noche'',
                   entry_embedding = [0, 1],
                   entry_metadata =
                     [(''title'', ''Futbol: final hoy''),
                      (''description'', ''El equipo juega esta noche''),
                      (''link'', ''https://x/2''), (''published'', ''2025-10-16'')]\<rparr>
         \<and> distinct (map entry_id (collection s1))
         \<and> distinct (map entry_id (collection s2)))
   \<and> add_documents ingested_retriever [weather_article] =
       (Inl DimensionMismatchError, ingested_retriever)"
proof -
  have h1: "distinct (map entry_id (collection ingested_retriever))"
    by (simp add: ingested_retriever_ids)
  note h2 = example_embeddings(2) and h3 = example_embeddings(1) and h4 = example_embeddings(3)
  have dims: "map (\<lambda>x. length (entry_embedding x)) (collection ingested_retriever) = [2, 2]"
    by (simp add: ingested_retriever_records)
  have hyp: "([0, 1] :: int list) \<noteq> [] \<and> length ([1, 0] :: int list) = length ([0, 1] :: int list)
          \<and> (\<forall>x \<in> set (collection ingested_retriever).
                length (entry_embedding x) = length ([0, 1] :: int list))"
    by (simp add: ingested_retriever_records)
  have n: "collection_count (collection ingested_retriever) = 2"
    by (simp add: collection_count_def ingested_retriever_records)
  have mem: "''article_0'' \<in> set (map entry_id (collection ingested_retriever))"
    by (simp add: ingested_retriever_ids)
  have old: "collection_get (collection ingested_retriever) ''article_1'' =
             Some \<lparr>entry_id = ''article_1'',
                   entry_document =
                     ''Futbol: final hoy'' @ [CHR 0x0A] @ ''El equipo juega esta noche'',
                   entry_embedding = [0, 1],
                   entry_metadata =
                     [(''title'', ''Futbol: final hoy''),
                      (''description'', ''El equipo juega esta noche''),
                      (''link'', ''https://x/2''), (''published'', ''2025-10-16'')]\<rparr>"
    by (simp add: ingested_retriever_records collection_get_def)
  have ne: "''article_1'' \<noteq> ''article_0''" by simp
  note inst = upsert_idempotent_keyed_by_id [OF h1 h2 h3]
  from inst hyp obtain s1 s2 where
    run1: "add_documents ingested_retriever [football_article] = (Inr PyNone, s1)"
    and run2: "add_documents s1 [economy_article] = (Inr PyNone, s2)"
    and c21: "collection_count (collection s2) = collection_count (collection s1)"
    and c1: "collection_count (collection s1) =
               (if ''article_0'' \<in> set (map entry_id (collection ingested_retriever))
                then collection_count (collection ingested_retriever)
                else collection_count (collection ingested_retriever) + 1)"
    and stored: "collection_get (collection s2) ''article_0'' =
               Some \<lparr>entry_id = ''article_0'',
                     entry_document =
                       (case text_key economy_article of
                          Some t \<Rightarrow> t
                        | None \<Rightarrow> (case title economy_article of Some t \<Rightarrow> t | None \<Rightarrow> '''')
                                   @ [CHR 0x0A]
                                   @ (case description economy_article of
                                        Some t \<Rightarrow> t | None \<Rightarrow> '''')),
                     entry_embedding = [1, 0],
                     entry_metadata =
                       [(''title'', case title economy_article of Some t \<Rightarrow> t | None \<Rightarrow> ''''),
                        (''description'',
                           case description economy_article of Some t \<Rightarrow> t | None \<Rightarrow> ''''),
                        (''link'', case link economy_article of Some t \<Rightarrow> t | None \<Rightarrow> ''''),
                        (''published'',
                           case published economy_article of
                             Some t \<Rightarrow> t | None \<Rightarrow> '''')]\<rparr>"
    and others: "\<forall>i. i \<noteq> ''article_0'' \<longrightarrow>
                  collection_get (collection s2) i =
                    collection_get (collection ingested_retriever) i"
    and ds1: "distinct (map entry_id (collection s1))"
    and ds2: "distinct (map entry_id (collection s2))"
    by blast
  have n1: "collection_count (collection s1) = 2"
    using c1 mem n by simp
  have n2: "collection_count (collection s2) = 2"
    using c21 n1 by simp
  have g0: "collection_get (collection s2) ''article_0'' =
             Some \<lparr>entry_id = ''article_0'',
                   entry_document = ''Economia crece 3%'' @ [CHR 0x0A] @ ''El PBI subio'',
                   entry_embedding = [1, 0],
                   entry_metadata =
                     [(''title'', ''Economia crece 3%''), (''description'', ''El PBI subio''),
                      (''link'', ''https://x/1''), (''published'', ''2025-10-16'')]\<rparr>"
    using stored by (simp add: economy_article_def)
  have g1: "collection_get (collection s2) ''article_1'' =
             Some \<lparr>entry_id = ''article_1'',
                   entry_document =
                     ''Futbol: final hoy'' @ [CHR 0x0A] @ ''El equipo juega esta noche'',
                   entry_embedding = [0, 1],
                   entry_metadata =
                     [(''title'', ''Futbol: final hoy''),
                      (''description'', ''El equipo juega esta noche''),
                      (''link'', ''https://x/2''), (''published'', ''2025-10-16'')]\<rparr>"
    using others ne old by simp
  have shape: "([1, 0, 0] :: int list) \<noteq> []
      \<and> collection ingested_retriever =
          article_entry 0 economy_article [1, 0] # [article_entry 1 football_article [0, 1]]
      \<and> length ([1, 0, 0] :: int list)
          \<noteq> length (entry_embedding (article_entry 0 economy_article [1, 0]))"
    by (simp add: ingested_retriever_collection article_entry_def)
  from upsert_idempotent_keyed_by_id [OF h1 h4 h3] shape
  have refused: "add_documents ingested_retriever [weather_article] =
       (Inl DimensionMismatchError, ingested_retriever)"
    by blast
  from h1 h2 h3 h4 dims run1 run2 n1 n2 g0 g1 ds1 ds2 refused show ?thesis by blast
qed

text \<open>
  C4. Ids are positional within the batch: the loop passes the ids
  \<open>article_0, ..., article_(n-1)\<close> to the store, where \<open>article_idx\<close> is
  \<open>"article_"\<close> followed by the decimal numeral of \<open>idx\<close>: a non-empty string of
  decimal digits that denotes \<open>idx\<close> and has no leading zero (the code assigns these ids
  to every article; it has no way to pass an explicit id). So two separate calls with
  one document each collide. Against the spec's model of the store, on an empty
  collection: when the two vectors have one dimension, both calls return \<open>None\<close>, the
  second overwrites the record of the first under \<open>article_0\<close>, and \<open>document_count\<close>
  is 1 after each; when the second vector has another dimension, the second call raises
  \<open>DimensionMismatchError\<close>, the record of the first call stays, and \<open>document_count\<close>
  is still 1.
\<close>

theorem positional_ids_collide:
  "(map embedding articles = map Some es \<longrightarrow>
      add_documents_loop 0 articles ([], [], [], []) =
        Inr (map document_text articles, es, map article_metadata articles,
             map article_id [0..<length articles]))
   \<and> article_id idx = ''article_'' @ py_str idx
   \<and> py_str idx \<noteq> []
   \<and> list_all is_digit (py_str idx)
   \<and> decimal_value (py_str idx) = idx
   \<and> (hd (py_str idx) = CHR ''0'' \<longrightarrow> idx = 0)
   \<and> (collection self = [] \<and> embedding d1 = Some e1 \<and> embedding d2 = Some e2
        \<and> e1 \<noteq> [] \<and> length e2 = length e1 \<longrightarrow>
        (\<exists>s1 s2.
            add_documents self [d1] = (Inr PyNone, s1)
          \<and> add_documents s1 [d2] = (Inr PyNone, s2)
          \<and> collection_count (collection s1) = 1
          \<and> collection_count (collection s2) = 1
          \<and> collection s2 =
              [\<lparr>entry_id = ''article_0'',
                entry_document =
                  (case text_key d2 of
                     Some t \<Rightarrow> t
                   | None \<Rightarrow> (case title d2 of Some t \<Rightarrow> t | None \<Rightarrow> '''')
                              @ [CHR 0x0A]
                              @ (case description d2 of Some t \<Rightarrow> t | None \<Rightarrow> '''')),
                entry_embedding = e2,
                entry_metadata =
                  [(''title'', case title d2 of Some t \<Rightarrow> t | None \<Rightarrow> ''''),
                   (''description'', case description d2 of Some t \<Rightarrow> t | None \<Rightarrow> ''''),
                   (''link'', case link d2 of Some t \<Rightarrow> t | None \<Rightarrow> ''''),
                   (''published'', case published d2 of Some t \<Rightarrow> t | None \<Rightarrow> '''')]\<rparr>]))
   \<and> (collection self = [] \<and> embedding d1 = Some e1 \<and> embedding d2 = Some e2
        \<and> e1 \<noteq> [] \<and> e2 \<noteq> [] \<and> length e2 \<noteq> length e1 \<longrightarrow>
        (\<exists>s1.
            add_documents self [d1] = (Inr PyNone, s1)
          \<and> add_documents s1 [d2] = (Inl DimensionMismatchError, s1)
          \<and> collection_count (collection s1) = 1
          \<and> collection s1 =
              [\<lparr>entry_id = ''article_0'',
                entry_document =
                  (case text_key d1 of
                     Some t \<Rightarrow> t
                   | None \<Rightarrow> (case title d1 of Some t \<Rightarrow> t | None \<Rightarrow> '''')
                              @ [CHR 0x0A]
                              @ (case description d1 of Some t \<Rightarrow> t | None \<Rightarrow> '''')),
                entry_embedding = e1,
                entry_metadata =
                  [(''title'', case title d1 of Some t \<Rightarrow> t | None \<Rightarrow> ''''),
                   (''description'', case description d1 of Some t \<Rightarrow> t | None \<Rightarrow> ''''),
                   (''link'', case link d1 of Some t \<Rightarrow> t | None \<Rightarrow> ''''),
                   (''published'', case published d1 of Some t \<Rightarrow> t | None \<Rightarrow> '''')]\<rparr>]))"
proof (intro conjI impI)
  assume "map embedding articles = map Some es"
  from add_documents_loop_ok [OF this, of 0 "[]" "[]" "[]" "[]"]
  show "add_documents_loop 0 articles ([], [], [], []) =
        Inr (map document_text articles, es, map article_metadata articles,
             map article_id [0..<length articles])"
    by simp
next
  show "article_id idx = ''article_'' @ py_str idx"
    by (simp add: article_id_def)
next
  show "py_str idx \<noteq> []" by (rule py_str_nonempty)
next
  show "list_all is_digit (py_str idx)" by (rule py_str_digits)
next
  show "decimal_value (py_str idx) = idx" by (rule py_str_value)
next
  assume "hd (py_str idx) = CHR ''0''"
  then show "idx = 0" by (rule py_str_leading)
next
  assume h: "collection self = [] \<and> embedding d1 = Some e1 \<and> embedding d2 = Some e2
        \<and> e1 \<noteq> [] \<and> length e2 = length e1"
  let ?s1 = "self\<lparr>collection := put_record (article_entry 0 d1 e1) (collection self)\<rparr>"
  let ?s2 = "?s1\<lparr>collection := put_record (article_entry 0 d2 e2) (collection ?s1)\<rparr>"
  from h have e2: "e2 \<noteq> []" by auto
  have first: "add_documents self [d1] = (Inr PyNone, ?s1)"
    using h by (intro add_documents_single) simp_all
  have c1: "collection ?s1 = [article_entry 0 d1 e1]"
    using h by simp
  have second: "add_documents ?s1 [d2] = (Inr PyNone, ?s2)"
    using h e2 by (intro add_documents_single) (simp_all add: article_entry_def)
  have c2: "collection ?s2 = [article_entry 0 d2 e2]"
    using h by (simp add: entry_id_article_entry)
  have n1: "collection_count (collection ?s1) = 1"
    by (simp only: c1 collection_count_def) simp
  have n2: "collection_count (collection ?s2) = 1"
    by (simp only: c2 collection_count_def) simp
  show "\<exists>s1 s2.
            add_documents self [d1] = (Inr PyNone, s1)
          \<and> add_documents s1 [d2] = (Inr PyNone, s2)
          \<and> collection_count (collection s1) = 1
          \<and> collection_count (collection s2) = 1
          \<and> collection s2 =
              [\<lparr>entry_id = ''article_0'',
                entry_document =
                  (case text_key d2 of
                     Some t \<Rightarrow> t
                   | None \<Rightarrow> (case title d2 of Some t \<Rightarrow> t | None \<Rightarrow> '''')
                              @ [CHR 0x0A]
                              @ (case description d2 of Some t \<Rightarrow> t | None \<Rightarrow> '''')),
                entry_embedding = e2,
                entry_metadata =
                  [(''title'', case title d2 of Some t \<Rightarrow> t | None \<Rightarrow> ''''),
                   (''description'', case description d2 of Some t \<Rightarrow> t | None \<Rightarrow> ''''),
                   (''link'', case link d2 of Some t \<Rightarrow> t | None \<Rightarrow> ''''),
                   (''published'', case published d2 of Some t \<Rightarrow> t | None \<Rightarrow> '''')]\<rparr>]"
    using first second n1 n2 c2 unfolding article_entry_first [of d2 e2] by blast
next
  assume h: "collection self = [] \<and> embedding d1 = Some e1 \<and> embedding d2 = Some e2
        \<and> e1 \<noteq> [] \<and> e2 \<noteq> [] \<and> length e2 \<noteq> length e1"
  let ?s1 = "self\<lparr>collection := put_record (article_entry 0 d1 e1) (collection self)\<rparr>"
  have first: "add_documents self [d1] = (Inr PyNone, ?s1)"
    using h by (intro add_documents_single) simp_all
  have c1: "collection ?s1 = [article_entry 0 d1 e1]"
    using h by simp
  have second: "add_documents ?s1 [d2] = (Inl DimensionMismatchError, ?s1)"
  proof (rule add_documents_refused)
    show "embedding d2 = Some e2" using h by simp
    show "e2 \<noteq> []" using h by simp
    show "collection ?s1 = article_entry 0 d1 e1 # []" by (rule c1)
    show "length e2 \<noteq> length (entry_embedding (article_entry 0 d1 e1))"
      using h by (simp add: article_entry_def)
  qed
  have n1: "collection_count (collection ?s1) = 1"
    by (simp only: c1 collection_count_def) simp
  show "\<exists>s1.
            add_documents self [d1] = (Inr PyNone, s1)
          \<and> add_documents s1 [d2] = (Inl DimensionMismatchError, s1)
          \<and> collection_count (collection s1) = 1
          \<and> collection s1 =
              [\<lparr>entry_id = ''article_0'',
                entry_document =
                  (case text_key d1 of
                     Some t \<Rightarrow> t
                   | None \<Rightarrow> (case title d1 of Some t \<Rightarrow> t | None \<Rightarrow> '''')
                              @ [CHR 0x0A]
                              @ (case description d1 of Some t \<Rightarrow> t | None \<Rightarrow> '''')),
                entry_embedding = e1,
                entry_metadata =
                  [(''title'', case title d1 of Some t \<Rightarrow> t | None \<Rightarrow> ''''),
                   (''description'', case description d1 of Some t \<Rightarrow> t | None \<Rightarrow> ''''),
                   (''link'', case link d1 of Some t \<Rightarrow> t | None \<Rightarrow> ''''),
                   (''published'', case published d1 of Some t \<Rightarrow> t | None \<Rightarrow> '''')]\<rparr>]"
    using first second n1 c1 unfolding article_entry_first [of d1 e1] by blast
qed

theorem positional_ids_collide_witness:
  "map embedding [economy_article, football_article] = map Some [[1, 0], [0, 1]]
   \<and> add_documents_loop 0 [economy_article, football_article] ([], [], [], []) =
       Inr ([''Economia crece 3%'' @ [CHR 0x0A] @ ''El PBI subio'',
             ''Futbol: final hoy'' @ [CHR 0x0A] @ ''El equipo juega esta noche''],
            [[1, 0], [0, 1]],
            [[(''title'', ''Economia crece 3%''), (''description'', ''El PBI subio''),
              (''link'', ''https://x/1''), (''published'', ''2025-10-16'')],
             [(''title'', ''Futbol: final hoy''),
              (''description'', ''El equipo juega esta noche''),
              (''link'', ''https://x/2''), (''published'', ''2025-10-16'')]],
            [''article_0'', ''article_1''])
   \<and> article_id 12 = ''article_12''
   \<and> collection fresh_retriever = []
   \<and> (\<exists>s1 s2.
          add_documents fresh_retriever [economy_article] = (Inr PyNone, s1)
        \<and> add_documents s1 [football_article] = (Inr PyNone, s2)
        \<and> collection_count (collection s1) = 1
        \<and> collection_count (collection s2) = 1
        \<and> collection s2 =
            [\<lparr>entry_id = ''article_0'',
              entry_document =
                ''Futbol: final hoy'' @ [CHR 0x0A] @ ''El equipo juega esta noche'',
              entry_embedding = [0, 1],
              entry_metadata =
                [(''title'', ''Futbol: final hoy''),
                 (''description'', ''El equipo juega esta noche''),
                 (''link'', ''https://x/2''), (''published'', ''2025-10-16'')]\<rparr>])
   \<and> (\<exists>s1.
          add_documents fresh_retriever [economy_article] = (Inr PyNone, s1)
        \<and> add_documents s1 [weather_article] = (Inl DimensionMismatchError, s1)
        \<and> collection_count (collection s1) = 1
        \<and> collection s1 =
            [\<lparr>entry_id = ''article_0'',
              entry_document = ''Economia crece 3%'' @ [CHR 0x0A] @ ''El PBI subio'',
              entry_embedding = [1, 0],
              entry_metadata =
                [(''title'', ''Economia crece 3%''), (''description'', ''El PBI subio''),
                 (''link'', ''https://x/1''), (''published'', ''2025-10-16'')]\<rparr>])"
proof -
  have h1: "map embedding [economy_article, football_article] = map Some [[1, 0], [0, 1]]"
    by (simp add: example_embeddings)
  have h2: "collection fresh_retriever = [] \<and> embedding economy_article = Some [1, 0]
              \<and> embedding football_article = Some [0, 1]
              \<and> ([1, 0] :: int list) \<noteq> []
              \<and> length ([0, 1] :: int list) = length ([1, 0] :: int list)"
    by (simp add: fresh_retriever_collection example_embeddings)
  have h3: "collection fresh_retriever = [] \<and> embedding economy_article = Some [1, 0]
              \<and> embedding weather_article = Some [1, 0, 0]
              \<and> ([1, 0] :: int list) \<noteq> [] \<and> ([1, 0, 0] :: int list) \<noteq> []
              \<and> length ([1, 0, 0] :: int list) \<noteq> length ([1, 0] :: int list)"
    by (simp add: fresh_retriever_collection example_embeddings)
  note inst = positional_ids_collide
    [of "[economy_article, football_article]" "[[1, 0], [0, 1]]" 12 fresh_retriever
        economy_article "[1, 0]" football_article "[0, 1]"]
  note inst' = positional_ids_collide
    [of "[economy_article, football_article]" "[[1, 0], [0, 1]]" 12 fresh_retriever
        economy_article "[1, 0]" weather_article "[1, 0, 0]"]
  from inst h1 have "add_documents_loop 0 [economy_article, football_article] ([], [], [], []) =
       Inr (map document_text [economy_article, football_article], [[1, 0], [0, 1]],
            map article_metadata [economy_article, football_article],
            map article_id [0..<length [economy_article, football_article]])"
    by blast
  then have loop: "add_documents_loop 0 [economy_article, football_article] ([], [], [], []) =
       Inr ([''Economia crece 3%'' @ [CHR 0x0A] @ ''El PBI subio'',
             ''Futbol: final hoy'' @ [CHR 0x0A] @ ''El equipo juega esta noche''],
            [[1, 0], [0, 1]],
            [[(''title'', ''Economia crece 3%''), (''description'', ''El PBI subio''),
              (''link'', ''https://x/1''), (''published'', ''2025-10-16'')],
             [(''title'', ''Futbol: final hoy''),
              (''description'', ''El equipo juega esta noche''),
              (''link'', ''https://x/2''), (''published'', ''2025-10-16'')]],
            [''article_0'', ''article_1''])"
    unfolding example_loop_lists .
  from inst have "article_id 12 = ''article_'' @ py_str 12" by blast
  then have id12: "article_id 12 = ''article_12''"
    unfolding py_str_12 by simp
  from inst h2 obtain s1 s2 where
    a: "add_documents fresh_retriever [economy_article] = (Inr PyNone, s1)"
       "add_documents s1 [football_article] = (Inr PyNone, s2)"
       "collection_count (collection s1) = 1" "collection_count (collection s2) = 1"
    and c2: "collection s2 =
              [\<lparr>entry_id = ''article_0'',
                entry_document =
                  (case text_key football_article of
                     Some t \<Rightarrow> t
                   | None \<Rightarrow> (case title football_article of Some t \<Rightarrow> t | None \<Rightarrow> '''')
                              @ [CHR 0x0A]
                              @ (case description football_article of
                                   Some t \<Rightarrow> t | None \<Rightarrow> '''')),
                entry_embedding = [0, 1],
                entry_metadata =
                  [(''title'', case title football_article of Some t \<Rightarrow> t | None \<Rightarrow> ''''),
                   (''description'',
                      case description football_article of Some t \<Rightarrow> t | None \<Rightarrow> ''''),
                   (''link'', case link football_article of Some t \<Rightarrow> t | None \<Rightarrow> ''''),
                   (''published'',
                      case published football_article of Some t \<Rightarrow> t | None \<Rightarrow> '''')]\<rparr>]"
    by blast
  from c2 have c2': "collection s2 =
            [\<lparr>entry_id = ''article_0'',
              entry_document =
                ''Futbol: final hoy'' @ [CHR 0x0A] @ ''El equipo juega esta noche'',
              entry_embedding = [0, 1],
              entry_metadata =
                [(''title'', ''Futbol: final hoy''),
                 (''description'', ''El equipo juega esta noche''),
                 (''link'', ''https://x/2''), (''published'', ''2025-10-16'')]\<rparr>]"
    by (simp add: football_article_def)
  from a c2' have collide: "\<exists>s1 s2.
          add_documents fresh_retriever [economy_article] = (Inr PyNone, s1)
        \<and> add_documents s1 [football_article] = (Inr PyNone, s2)
        \<and> collection_count (collection s1) = 1
        \<and> collection_count (collection s2) = 1
        \<and> collection s2 =
            [\<lparr>entry_id = ''article_0'',
              entry_document =
                ''Futbol: final hoy'' @ [CHR 0x0A] @ ''El equipo juega esta noche'',
              entry_embedding = [0, 1],
              entry_metadata =
                [(''title'', ''Futbol: final hoy''),
                 (''description'', ''El equipo juega esta noche''),
                 (''link'', ''https://x/2''), (''published'', ''2025-10-16'')]\<rparr>]"
    by blast
  from inst' h3 obtain t1 where
    b: "add_documents fresh_retriever [economy_article] = (Inr PyNone, t1)"
       "add_documents t1 [weather_article] = (Inl DimensionMismatchError, t1)"
       "collection_count (collection t1) = 1"
    and c1: "collection t1 =
              [\<lparr>entry_id = ''article_0'',
                entry_document =
                  (case text_key economy_article of
                     Some t \<Rightarrow> t
                   | None \<Rightarrow> (case title economy_article of Some t \<Rightarrow> t | None \<Rightarrow> '''')
                              @ [CHR 0x0A]
                              @ (case description economy_article of
                                   Some t \<Rightarrow> t | None \<Rightarrow> '''')),
                entry_embedding = [1, 0],
                entry_metadata =
                  [(''title'', case title economy_article of Some t \<Rightarrow> t | None \<Rightarrow> ''''),
                   (''description'',
                      case description economy_article of Some t \<Rightarrow> t | None \<Rightarrow> ''''),
                   (''link'', case link economy_article of Some t \<Rightarrow> t | None \<Rightarrow> ''''),
                   (''published'',
                      case published economy_article of Some t \<Rightarrow> t | None \<Rightarrow> '''')]\<rparr>]"
    by blast
  from c1 have c1': "collection t1 =
            [\<lparr>entry_id = ''article_0'',
              entry_document = ''Economia crece 3%'' @ [CHR 0x0A] @ ''El PBI subio'',
              entry_embedding = [1, 0],
              entry_metadata =
                [(''title'', ''Economia crece 3%''), (''description'', ''El PBI subio''),
                 (''link'', ''https://x/1''), (''published'', ''2025-10-16'')]\<rparr>]"
    by (simp add: economy_article_def)
  from b c1' have refuse: "\<exists>s1.
          add_documents fresh_retriever [economy_article] = (Inr PyNone, s1)
        \<and> add_documents s1 [weather_article] = (Inl DimensionMismatchError, s1)
        \<and> collection_count (collection s1) = 1
        \<and> collection s1 =
            [\<lparr>entry_id = ''article_0'',
              entry_document = ''Economia crece 3%'' @ [CHR 0x0A] @ ''El PBI subio'',
              entry_embedding = [1, 0],
              entry_metadata =
                [(''title'', ''Economia crece 3%''), (''description'', ''El PBI subio''),
                 (''link'', ''https://x/1''), (''published'', ''2025-10-16'')]\<rparr>]"
    by blast
  from h1 loop id12 fresh_retriever_collection collide refuse show ?thesis by blast
qed

text \<open>
  C9, as amended. \<open>add_documents\<close> returns no count: a call either returns \<open>None\<close> or
  raises, and a call that raises leaves the retriever as it was. It raises
  \<open>KeyError\<close> when an article lacks its embedding, and the store's \<open>ValueError\<close> on
  the empty batch and on a vector without components. A fully successful call (a
  non-empty batch whose vectors all have the collection's dimension) returns \<open>None\<close>;
  afterwards each article is stored under its positional id, the ids being pairwise
  different, and on a collection that was empty \<open>document_count\<close> is the length of the
  input.
\<close>

theorem add_documents_returns_none:
  "(fst (add_documents self articles) = Inr PyNone
      \<or> (\<exists>e. fst (add_documents self articles) = Inl e))
   \<and> (\<forall>n. fst (add_documents self articles) \<noteq> Inr (PyInt n))
   \<and> (\<forall>e. fst (add_documents self articles) = Inl e \<longrightarrow>
          snd (add_documents self articles) = self)
   \<and> (None \<in> set (map embedding articles) \<longrightarrow>
        add_documents self articles = (Inl (KeyError ''embedding''), self))
   \<and> raised_name (fst (add_documents self [])) = Some ''ValueError''
   \<and> (map embedding articles = map Some es \<and> [] \<in> set es \<longrightarrow>
        raised_name (fst (add_documents self articles)) = Some ''ValueError'')
   \<and> (articles \<noteq> [] \<and> map embedding articles = map Some es
        \<and> (\<forall>e \<in> set es. e \<noteq> [] \<and> length e = n)
        \<and> (\<forall>x \<in> set (collection self). length (entry_embedding x) = n) \<longrightarrow>
        fst (add_documents self articles) = Inr PyNone
      \<and> (\<forall>i < length articles.
            collection_get (collection (snd (add_documents self articles))) (article_id i) =
              Some (article_entry i (articles ! i) (es ! i)))
      \<and> (collection self = [] \<longrightarrow>
            collection_count (collection (snd (add_documents self articles))) =
              int (length articles)))
   \<and> distinct (map article_id [0..<length articles])"
proof -
  have outcome: "fst (add_documents self articles) = Inr PyNone
      \<or> (\<exists>e. fst (add_documents self articles) = Inl e)"
    by (rule add_documents_value)
  then have never: "\<forall>n. fst (add_documents self articles) \<noteq> Inr (PyInt n)"
    by auto
  have keeps: "\<forall>e. fst (add_documents self articles) = Inl e \<longrightarrow>
          snd (add_documents self articles) = self"
    using add_documents_raise_keeps by blast
  have missing: "None \<in> set (map embedding articles) \<longrightarrow>
        add_documents self articles = (Inl (KeyError ''embedding''), self)"
    using add_documents_missing by blast
  have empty: "raised_name (fst (add_documents self [])) = Some ''ValueError''"
    by (simp add: add_documents_empty raised_name_def)
  have invalid: "map embedding articles = map Some es \<and> [] \<in> set es \<longrightarrow>
        raised_name (fst (add_documents self articles)) = Some ''ValueError''"
  proof
    assume "map embedding articles = map Some es \<and> [] \<in> set es"
    then have "add_documents self articles =
           (Inl (ValueError ''Expected each embedding to be a non-empty list''), self)"
      using add_documents_invalid by blast
    then show "raised_name (fst (add_documents self articles)) = Some ''ValueError''"
      by (simp add: raised_name_def)
  qed
  have success: "articles \<noteq> [] \<and> map embedding articles = map Some es
        \<and> (\<forall>e \<in> set es. e \<noteq> [] \<and> length e = n)
        \<and> (\<forall>x \<in> set (collection self). length (entry_embedding x) = n) \<longrightarrow>
        fst (add_documents self articles) = Inr PyNone
      \<and> (\<forall>i < length articles.
            collection_get (collection (snd (add_documents self articles))) (article_id i) =
              Some (article_entry i (articles ! i) (es ! i)))
      \<and> (collection self = [] \<longrightarrow>
            collection_count (collection (snd (add_documents self articles))) =
              int (length articles))"
  proof
    assume h: "articles \<noteq> [] \<and> map embedding articles = map Some es
        \<and> (\<forall>e \<in> set es. e \<noteq> [] \<and> length e = n)
        \<and> (\<forall>x \<in> set (collection self). length (entry_embedding x) = n)"
    then have emb: "map embedding articles = map Some es" by simp
    then have len: "length es = length articles" by (metis length_map)
    let ?rs = "batch_entries articles es"
    let ?s = "self\<lparr>collection := fold put_record ?rs (collection self)\<rparr>"
    have run: "add_documents self articles = (Inr PyNone, ?s)"
      using h by (intro add_documents_accepted) auto
    have dist: "distinct (map entry_id ?rs)"
      using len by (rule batch_entries_distinct)
    have stored: "\<forall>i < length articles.
                  collection_get (collection ?s) (article_id i) =
                    Some (article_entry i (articles ! i) (es ! i))"
    proof (intro allI impI)
      fix i assume i: "i < length articles"
      have nth: "?rs ! i = article_entry i (articles ! i) (es ! i)"
        using len i by (rule batch_entries_nth)
      have "?rs ! i \<in> set ?rs"
        using i len by (simp add: batch_entries_length)
      from fold_put_get [OF dist this, of "collection self"]
      show "collection_get (collection ?s) (article_id i) =
              Some (article_entry i (articles ! i) (es ! i))"
        by (simp add: nth entry_id_article_entry)
    qed
    have fresh: "collection self = [] \<longrightarrow>
                   collection_count (collection ?s) = int (length articles)"
    proof
      assume e: "collection self = []"
      have "fold put_record ?rs [] = [] @ ?rs"
        using dist by (intro fold_put_fresh) simp_all
      then show "collection_count (collection ?s) = int (length articles)"
        using e len by (simp add: collection_count_def batch_entries_length)
    qed
    show "fst (add_documents self articles) = Inr PyNone
      \<and> (\<forall>i < length articles.
            collection_get (collection (snd (add_documents self articles))) (article_id i) =
              Some (article_entry i (articles ! i) (es ! i)))
      \<and> (collection self = [] \<longrightarrow>
            collection_count (collection (snd (add_documents self articles))) =
              int (length articles))"
      unfolding run using stored fresh by simp
  qed
  have ids: "distinct (map article_id [0..<length articles])"
    by (rule article_id_distinct)
  from outcome never keeps missing empty invalid success ids show ?thesis by blast
qed

theorem add_documents_returns_none_witness:
  "map embedding [economy_article, football_article] = map Some [[1, 0], [0, 1]]
   \<and> collection fresh_retriever = []
   \<and> fst (add_documents fresh_retriever [economy_article, football_article]) = Inr PyNone
   \<and> collection_get
       (collection (snd (add_documents fresh_retriever [economy_article, football_article])))
       ''article_0'' =
       Some \<lparr>entry_id = ''article_0'',
             entry_document = ''Economia crece 3%'' @ [CHR 0x0A] @ ''El PBI subio'',
             entry_embedding = [1, 0],
             entry_metadata =
               [(''title'', ''Economia crece 3%''), (''description'', ''El PBI subio''),
                (''link'', ''https://x/1''), (''published'', ''2025-10-16'')]\<rparr>
   \<and> collection_get
       (collection (snd (add_documents fresh_retriever [economy_article, football_article])))
       ''article_1'' =
       Some \<lparr>entry_id = ''article_1'',
             entry_document =
               ''Futbol: final hoy'' @ [CHR 0x0A] @ ''El equipo juega esta noche'',
             entry_embedding = [0, 1],
             entry_metadata =
               [(''title'', ''Futbol: final hoy''),
                (''description'', ''El equipo juega esta noche''),
                (''link'', ''https://x/2''), (''published'', ''2025-10-16'')]\<rparr>
   \<and> collection_count
       (collection (snd (add_documents fresh_retriever [economy_article, football_article])))
       = 2
   \<and> embedding (economy_article\<lparr>embedding := None\<rparr>) = None
   \<and> add_documents fresh_retriever [football_article, economy_article\<lparr>embedding := None\<rparr>] =
       (Inl (KeyError ''embedding''), fresh_retriever)
   \<and> raised_name (fst (add_documents fresh_retriever [])) = Some ''ValueError''"
proof -
  let ?two = "[economy_article, football_article]"
  let ?bad = "[football_article, economy_article\<lparr>embedding := None\<rparr>]"
  have h1: "map embedding ?two = map Some [[1, 0], [0, 1]]"
    by (simp add: example_embeddings)
  note h2 = fresh_retriever_collection
  have hyp: "?two \<noteq> [] \<and> map embedding ?two = map Some [[1, 0], [0, 1]]
        \<and> (\<forall>e \<in> set [[1, 0], [0, 1 :: int]]. e \<noteq> [] \<and> length e = 2)
        \<and> (\<forall>x \<in> set (collection fresh_retriever). length (entry_embedding x) = 2)"
    by (simp add: example_embeddings fresh_retriever_collection)
  note inst = add_documents_returns_none [of fresh_retriever ?two "[[1, 0], [0, 1]]" 2]
  from inst hyp have
    ret: "fst (add_documents fresh_retriever ?two) = Inr PyNone"
    and get: "\<forall>i < length ?two.
                collection_get (collection (snd (add_documents fresh_retriever ?two)))
                  (article_id i) =
                  Some (article_entry i (?two ! i) ([[1, 0], [0, 1]] ! i))"
    and cnt: "collection fresh_retriever = [] \<longrightarrow>
                collection_count (collection (snd (add_documents fresh_retriever ?two))) =
                  int (length ?two)"
    by blast+
  from get have "collection_get (collection (snd (add_documents fresh_retriever ?two)))
                   (article_id 0) = Some (article_entry 0 economy_article [1, 0])"
    by force
  then have g0: "collection_get (collection (snd (add_documents fresh_retriever ?two)))
       ''article_0'' =
       Some \<lparr>entry_id = ''article_0'',
             entry_document = ''Economia crece 3%'' @ [CHR 0x0A] @ ''El PBI subio'',
             entry_embedding = [1, 0],
             entry_metadata =
               [(''title'', ''Economia crece 3%''), (''description'', ''El PBI subio''),
                (''link'', ''https://x/1''), (''published'', ''2025-10-16'')]\<rparr>"
    unfolding article_id_0 example_records .
  from get have "collection_get (collection (snd (add_documents fresh_retriever ?two)))
                   (article_id (Suc 0)) = Some (article_entry (Suc 0) football_article [0, 1])"
    by force
  then have g1: "collection_get (collection (snd (add_documents fresh_retriever ?two)))
       ''article_1'' =
       Some \<lparr>entry_id = ''article_1'',
             entry_document =
               ''Futbol: final hoy'' @ [CHR 0x0A] @ ''El equipo juega esta noche'',
             entry_embedding = [0, 1],
             entry_metadata =
               [(''title'', ''Futbol: final hoy''),
                (''description'', ''El equipo juega esta noche''),
                (''link'', ''https://x/2''), (''published'', ''2025-10-16'')]\<rparr>"
    unfolding article_id_1 example_records .
  from cnt h2 have n: "collection_count
       (collection (snd (add_documents fresh_retriever ?two))) = 2"
    by simp
  have none: "embedding (economy_article\<lparr>embedding := None\<rparr>) = None"
    by simp
  then have "None \<in> set (map embedding ?bad)"
    by simp
  with add_documents_returns_none [of fresh_retriever ?bad "[]" 0]
  have bad: "add_documents fresh_retriever ?bad = (Inl (KeyError ''embedding''), fresh_retriever)"
    by blast
  from inst have empty: "raised_name (fst (add_documents fresh_retriever [])) = Some ''ValueError''"
    by blast
  from h1 h2 ret g0 g1 n none bad empty show ?thesis by blast
qed

text \<open>
  The claim as stated fails: ingesting one document returns \<open>None\<close>, not the count 1.
\<close>

theorem add_documents_returns_count_counterexample:
  "fst (add_documents fresh_retriever [economy_article]) = Inr PyNone
   \<and> fst (add_documents fresh_retriever [economy_article])
       \<noteq> Inr (PyInt (int (length [economy_article])))
   \<and> fst (add_documents fresh_retriever [economy_article]) \<noteq> Inr (PyInt 1)"
proof -
  have "add_documents fresh_retriever [economy_article] =
          (Inr PyNone,
           fresh_retriever\<lparr>collection :=
             put_record (article_entry 0 economy_article [1, 0]) (collection fresh_retriever)\<rparr>)"
    using example_embeddings(1)
    by (rule add_documents_single) (simp_all add: fresh_retriever_collection)
  then show ?thesis by simp
qed

section \<open>Queries: the number of rows and their shape\<close>

text \<open>
  The rows of \<open>query_to_dataframe\<close> are the metadata of the nearest records, one row
  each, whichever branch of \<open>query\<close> embeds the text.
\<close>

lemma nearest_length: "length (nearest env qv k c) = min k (length c)"
  unfolding nearest_def by (simp add: min.commute)

lemma query_metadatas:
  "res_metadatas (query env self q k emb) =
     Some [map entry_metadata (nearest env (query_vector env q emb) k (collection self))]"
  by (cases emb)
     (simp_all add: query_def query_vector_def collection_query_embeddings_def
        collection_query_texts_def)

lemma query_ids:
  "res_ids (query env self q k emb) =
     [map entry_id (nearest env (query_vector env q emb) k (collection self))]"
  by (cases emb)
     (simp_all add: query_def query_vector_def collection_query_embeddings_def
        collection_query_texts_def)

lemma query_to_dataframe_rows:
  "query_to_dataframe env self q k emb =
     map (\<lambda>r. result_row (entry_metadata r))
         (nearest env (query_vector env q emb) k (collection self))"
  by (simp add: query_to_dataframe_def Let_def query_metadatas comp_def)

lemma result_row_keys:
  "keys (result_row m) = [''title'', ''description'', ''link'', ''date_published'']"
  by (simp add: result_row_def keys_def)

lemma result_row_article:
  "result_row (article_metadata a) =
     [(''title'', get_or (title a) ''''),
      (''description'', get_or (description a) ''''),
      (''link'', get_or (link a) ''''),
      (''date_published'', get_or (published a) '''')]"
  by (simp add: result_row_def article_metadata_def dict_get_def)

lemma article_entry_fields:
  "entry_embedding (article_entry i a e) = e"
  "entry_metadata (article_entry i a e) = article_metadata a"
  by (simp_all add: article_entry_def)

lemma example_nearest:
  "nearest example_env (query_vector example_env ''noticias de economia'' None) 1
     (collection ingested_retriever) = [article_entry 0 economy_article [1, 0]]"
  by (simp add: ingested_retriever_collection nearest_def query_vector_def example_env_def
        first_axis_def neg_dot_def article_entry_fields)

lemma example_query:
  "query_to_dataframe example_env ingested_retriever ''noticias de economia'' 1 None =
     [[(''title'', ''Economia crece 3%''), (''description'', ''El PBI subio''),
       (''link'', ''https://x/1''), (''date_published'', ''2025-10-16'')]]"
  unfolding query_to_dataframe_rows example_nearest
  by (simp add: article_entry_fields result_row_article economy_article_def get_or_def)

text \<open>
  C6. Against the spec's model of the store's query: for every collection and every
  \<open>k\<close> the result has \<open>min(k, document_count)\<close> rows, so never more than \<open>k\<close> and
  exactly \<open>document_count\<close> when \<open>k\<close> is larger; the store's own result has one inner
  list of that length; and on an empty collection the result is the empty sequence (no
  error is raised: the result type has none).
\<close>

theorem query_length_min:
  "int (length (query_to_dataframe env self q k emb)) =
     min (int k) (collection_count (collection self))
   \<and> length (query_to_dataframe env self q k emb) \<le> k
   \<and> map length (res_ids (query env self q k emb)) = [min k (length (collection self))]
   \<and> query_to_dataframe env (self\<lparr>collection := []\<rparr>) q k emb = []"
proof -
  have len: "length (query_to_dataframe env self q k emb) = min k (length (collection self))"
    by (simp add: query_to_dataframe_rows nearest_length)
  have ids: "map length (res_ids (query env self q k emb)) = [min k (length (collection self))]"
    by (simp add: query_ids nearest_length)
  have empty: "query_to_dataframe env (self\<lparr>collection := []\<rparr>) q k emb = []"
    by (simp add: query_to_dataframe_rows nearest_def)
  have "int (length (query_to_dataframe env self q k emb)) =
          min (int k) (collection_count (collection self))"
    unfolding len collection_count_def by simp
  moreover have "length (query_to_dataframe env self q k emb) \<le> k"
    unfolding len by simp
  ultimately show ?thesis using ids empty by blast
qed

theorem query_length_min_witness:
  "int (length (query_to_dataframe example_env ingested_retriever ''noticias'' 5 None)) = 2
   \<and> int (length (query_to_dataframe example_env ingested_retriever ''noticias'' 1 None)) = 1
   \<and> query_to_dataframe example_env (fresh_retriever\<lparr>collection := []\<rparr>) ''noticias'' 5 None
       = []"
proof -
  have n: "collection_count (collection ingested_retriever) = 2"
    by (simp add: collection_count_def ingested_retriever_collection)
  from query_length_min [of example_env ingested_retriever "''noticias''" 5 None] n
  have a: "int (length (query_to_dataframe example_env ingested_retriever ''noticias'' 5 None))
             = 2"
    by simp
  from query_length_min [of example_env ingested_retriever "''noticias''" 1 None] n
  have b: "int (length (query_to_dataframe example_env ingested_retriever ''noticias'' 1 None))
             = 1"
    by simp
  from query_length_min [of example_env fresh_retriever "''noticias''" 5 None]
  have c: "query_to_dataframe example_env (fresh_retriever\<lparr>collection := []\<rparr>)
             ''noticias'' 5 None = []"
    by blast
  from a b c show ?thesis by blast
qed

text \<open>
  C8, as amended. Every row of \<open>query_to_dataframe\<close> has exactly the keys \<open>title\<close>,
  \<open>description\<close>, \<open>link\<close>, \<open>date_published\<close>, in this order, and no \<open>score\<close>: the
  row is built from the metadata of a match, and for a record made by
  \<open>add_documents\<close> it carries the article's title, description and link, and its
  \<open>published\<close> value under \<open>date_published\<close>.
\<close>

theorem query_rows_shape:
  "(\<forall>row \<in> set (query_to_dataframe env self q k emb).
      keys row = [''title'', ''description'', ''link'', ''date_published''])
   \<and> query_to_dataframe env self q k emb =
       map (\<lambda>r. result_row (entry_metadata r))
           (nearest env (query_vector env q emb) k (collection self))
   \<and> result_row (article_metadata a) =
       [(''title'', get_or (title a) ''''),
        (''description'', get_or (description a) ''''),
        (''link'', get_or (link a) ''''),
        (''date_published'', get_or (published a) '''')]"
  by (auto simp: query_to_dataframe_rows result_row_keys result_row_article)

theorem query_rows_shape_witness:
  "[(''title'', ''Economia crece 3%''), (''description'', ''El PBI subio''),
    (''link'', ''https://x/1''), (''date_published'', ''2025-10-16'')]
     \<in> set (query_to_dataframe example_env ingested_retriever ''noticias de economia'' 1 None)
   \<and> keys [(''title'', ''Economia crece 3%''), (''description'', ''El PBI subio''),
        (''link'', ''https://x/1''), (''date_published'', ''2025-10-16'')] =
       [''title'', ''description'', ''link'', ''date_published'']"
proof -
  let ?row = "[(''title'', ''Economia crece 3%''), (''description'', ''El PBI subio''),
    (''link'', ''https://x/1''), (''date_published'', ''2025-10-16'')]"
  have mem: "?row \<in> set (query_to_dataframe example_env ingested_retriever
                           ''noticias de economia'' 1 None)"
    unfolding example_query by simp
  from query_rows_shape [of example_env ingested_retriever "''noticias de economia''" 1 None]
  have "\<forall>row \<in> set (query_to_dataframe example_env ingested_retriever
                       ''noticias de economia'' 1 None).
          keys row = [''title'', ''description'', ''link'', ''date_published'']"
    by blast
  with mem show ?thesis by blast
qed

text \<open>
  The claim as stated fails: the one row returned for the spec's end-to-end scenario
  has four fields, and \<open>score\<close> is not among them.
\<close>

theorem query_rows_score_counterexample:
  "query_to_dataframe example_env ingested_retriever ''noticias de economia'' 1 None =
     [[(''title'', ''Economia crece 3%''), (''description'', ''El PBI subio''),
       (''link'', ''https://x/1''), (''date_published'', ''2025-10-16'')]]
   \<and> ''score'' \<notin> set (keys [(''title'', ''Economia crece 3%''),
        (''description'', ''El PBI subio''), (''link'', ''https://x/1''),
        (''date_published'', ''2025-10-16'')])"
  unfolding example_query by (simp add: keys_def)

section \<open>Collection statistics\<close>

text \<open>
  C7, as amended. \<open>get_collection_stats\<close> returns a newly built dict with exactly the
  keys \<open>collection_name\<close>, \<open>document_count\<close> and \<open>persist_directory\<close>; the value of
  \<open>document_count\<close> is the current number of stored records, and the other two are
  the retriever's name and directory.
\<close>

theorem get_collection_stats_keys:
  "keys (get_collection_stats self) =
     [''collection_name'', ''document_count'', ''persist_directory'']
   \<and> map_of (get_collection_stats self) ''collection_name'' =
       Some (PyStr (collection_name self))
   \<and> map_of (get_collection_stats self) ''document_count'' =
       Some (PyInt (collection_count (collection self)))
   \<and> map_of (get_collection_stats self) ''persist_directory'' =
       Some (PyStr (persist_directory self))"
  by (simp add: get_collection_stats_def keys_def Let_def)

text \<open>
  The claim as stated fails: the dict has no key \<open>storage_location\<close>.
\<close>

theorem get_collection_stats_keys_counterexample:
  "''storage_location'' \<notin> set (keys (get_collection_stats fresh_retriever))
   \<and> map_of (get_collection_stats fresh_retriever) ''storage_location'' = None"
  by (simp add: get_collection_stats_def keys_def Let_def)

section \<open>Querying before the vector store is bound\<close>

text \<open>
  C5, as amended. Only the LangChain pipeline can be without a vector store
  (\<open>NewsRetriever.__init__\<close> binds a collection on every path). While
  \<open>self.vectorstore\<close> is \<open>None\<close>, every call of \<open>query\<close> and of
  \<open>query_to_dataframe\<close> raises \<open>ValueError\<close> with the message
  "Vector store not initialized. ..." and returns nothing; with a store bound,
  \<open>query\<close> returns or raises what the store's \<open>similarity_search\<close> does. The
  attribute is \<open>None\<close> after \<open>__init__\<close>, and a \<open>create_vectorstore\<close> or
  \<open>load_vectorstore\<close> whose constructor raises leaves the pipeline as it was.
\<close>

theorem pipeline_query_uninitialized:
  "(vectorstore self = None \<longrightarrow>
      pipeline_query similarity_search self q k =
        Inl (ValueError
          ''Vector store not initialized. Call create_vectorstore or load_vectorstore first.'')
    \<and> pipeline_query_to_dataframe similarity_search self q k =
        Inl (ValueError
          ''Vector store not initialized. Call create_vectorstore or load_vectorstore first.'')
    \<and> raised_name (pipeline_query similarity_search self q k) = Some ''ValueError''
    \<and> raised_name (pipeline_query_to_dataframe similarity_search self q k) =
        Some ''ValueError'')
   \<and> (\<forall>vs. vectorstore self = Some vs \<longrightarrow>
          pipeline_query similarity_search self q k = similarity_search vs q k)
   \<and> vectorstore (pipeline_init name dir :: 'vs pipeline) = None
   \<and> (\<forall>e. from_documents documents (pl_persist_directory self) = Inl e \<longrightarrow>
          create_vectorstore from_documents self documents = (Inl e, self))
   \<and> (\<forall>e. open_store (pl_persist_directory self) = Inl e \<longrightarrow>
          load_vectorstore open_store self = (Inl e, self))"
  by (simp add: pipeline_query_def pipeline_query_to_dataframe_def raised_name_def
        pipeline_init_def create_vectorstore_def load_vectorstore_def)

theorem pipeline_query_uninitialized_witness:
  "vectorstore fresh_pipeline = None
   \<and> pipeline_query_to_dataframe first_k fresh_pipeline ''noticias de economia'' 5 =
       Inl (ValueError
         ''Vector store not initialized. Call create_vectorstore or load_vectorstore first.'')
   \<and> store_documents [] (pl_persist_directory fresh_pipeline) =
       Inl (ValueError ''Expected IDs to be a non-empty list'')
   \<and> create_vectorstore store_documents fresh_pipeline [] =
       (Inl (ValueError ''Expected IDs to be a non-empty list''), fresh_pipeline)
   \<and> pipeline_query first_k (snd (create_vectorstore store_documents fresh_pipeline []))
         ''noticias de economia'' 5 =
       Inl (ValueError
         ''Vector store not initialized. Call create_vectorstore or load_vectorstore first.'')
   \<and> vectorstore (snd (load_vectorstore open_empty_store fresh_pipeline)) = Some []
   \<and> pipeline_query_to_dataframe first_k (snd (load_vectorstore open_empty_store fresh_pipeline))
         ''noticias de economia'' 5 = Inr []"
proof -
  have h1: "vectorstore fresh_pipeline = None"
    by (simp add: fresh_pipeline_def pipeline_init_def)
  have h2: "store_documents [] (pl_persist_directory fresh_pipeline) =
       Inl (ValueError ''Expected IDs to be a non-empty list'')"
    by (simp add: store_documents_def)
  note inst = pipeline_query_uninitialized
         [of fresh_pipeline first_k "''noticias de economia''" 5 _ _ store_documents "[]"]
  from inst h1
  have a: "pipeline_query_to_dataframe first_k fresh_pipeline ''noticias de economia'' 5 =
       Inl (ValueError
         ''Vector store not initialized. Call create_vectorstore or load_vectorstore first.'')"
    and a': "pipeline_query first_k fresh_pipeline ''noticias de economia'' 5 =
       Inl (ValueError
         ''Vector store not initialized. Call create_vectorstore or load_vectorstore first.'')"
    by blast+
  from inst h2
  have b: "create_vectorstore store_documents fresh_pipeline [] =
       (Inl (ValueError ''Expected IDs to be a non-empty list''), fresh_pipeline)"
    by blast
  have c: "pipeline_query first_k (snd (create_vectorstore store_documents fresh_pipeline []))
         ''noticias de economia'' 5 =
       Inl (ValueError
         ''Vector store not initialized. Call create_vectorstore or load_vectorstore first.'')"
    unfolding b using a' by simp
  have d: "vectorstore (snd (load_vectorstore open_empty_store fresh_pipeline)) = Some []"
    by (simp add: load_vectorstore_def open_empty_store_def)
  from pipeline_query_uninitialized
         [of "snd (load_vectorstore open_empty_store fresh_pipeline)" first_k
             "''noticias de economia''" 5] d
  have "pipeline_query first_k (snd (load_vectorstore open_empty_store fresh_pipeline))
          ''noticias de economia'' 5 = first_k [] ''noticias de economia'' 5"
    by blast
  then have e: "pipeline_query_to_dataframe first_k
             (snd (load_vectorstore open_empty_store fresh_pipeline))
             ''noticias de economia'' 5 = Inr []"
    by (simp add: pipeline_query_to_dataframe_def first_k_def)
  from h1 a h2 b c d e show ?thesis by blast
qed

text \<open>
  The claim as stated fails: the exception raised is a \<open>ValueError\<close>; the code has no
  \<open>NotInitializedError\<close>.
\<close>

theorem pipeline_query_error_name_counterexample:
  "raised_name (pipeline_query_to_dataframe first_k fresh_pipeline ''noticias de economia'' 5) =
     Some ''ValueError''
   \<and> raised_name (pipeline_query_to_dataframe first_k fresh_pipeline ''noticias de economia'' 5)
       \<noteq> Some ''NotInitializedError''"
  by (simp add: pipeline_query_def pipeline_query_to_dataframe_def raised_name_def
        fresh_pipeline_def pipeline_init_def)

section \<open>Token statistics\<close>

text \<open>With the encoder loaded, each step returns; with the lookup raising, each step raises.\<close>

lemma count_tokens_ok:
  "get_encoding name = Inr enc \<Longrightarrow> count_tokens get_encoding t name = Inr (int (length (enc t)))"
  by (simp add: count_tokens_def get_tokenizer_def)

lemma count_tokens_err:
  "get_encoding name = Inl e \<Longrightarrow> count_tokens get_encoding t name = Inl e"
  by (simp add: count_tokens_def get_tokenizer_def)

lemma analyze_article_tokens_ok:
  "get_encoding name = Inr enc \<Longrightarrow>
   analyze_article_tokens get_encoding a name =
     Inr \<lparr>an_title = get_or (title a) '''',
          an_title_tokens = int (length (enc (get_or (title a) ''''))),
          an_description_tokens = int (length (enc (get_or (description a) ''''))),
          an_total_tokens = int (length (enc (title_nl_description a))),
          an_full_text = title_nl_description a\<rparr>"
  by (simp add: analyze_article_tokens_def count_tokens_ok title_nl_description_def Let_def)

lemma analyze_article_tokens_err:
  "get_encoding name = Inl e \<Longrightarrow> analyze_article_tokens get_encoding a name = Inl e"
  by (simp add: analyze_article_tokens_def count_tokens_err Let_def)

lemma collect_token_counts_ok:
  "get_encoding name = Inr enc \<Longrightarrow>
   collect_token_counts get_encoding articles name acc =
     Inr (acc @ map (\<lambda>a. int (length (enc (title_nl_description a)))) articles)"
  by (induction articles arbitrary: acc) (simp_all add: analyze_article_tokens_ok)

lemma collect_token_counts_err:
  "get_encoding name = Inl e \<Longrightarrow> articles \<noteq> [] \<Longrightarrow>
   collect_token_counts get_encoding articles name acc = Inl e"
  by (cases articles) (simp_all add: analyze_article_tokens_err)

lemma py_min_Min:
  assumes "xs \<noteq> []"
  shows "py_min xs = Inr (Min (set xs))"
proof (cases xs)
  case Nil
  with assms show ?thesis by simp
next
  case (Cons a list)
  then show ?thesis using Min.set_eq_fold [of a list] by simp
qed

lemma py_max_Max:
  assumes "xs \<noteq> []"
  shows "py_max xs = Inr (Max (set xs))"
proof (cases xs)
  case Nil
  with assms show ?thesis by simp
next
  case (Cons a list)
  then show ?thesis using Max.set_eq_fold [of a list] by simp
qed

text \<open>
  C10. \<open>analyze_corpus_tokens\<close> returns on every list of articles. On the empty list
  the result has \<open>num_articles = 0\<close>, \<open>total_tokens = 0\<close> and \<open>avg_tokens\<close>,
  \<open>min_tokens\<close>, \<open>max_tokens\<close> all \<open>0\<close>, whatever the tokenizer does: the division and
  \<open>min\<close>/\<open>max\<close> are behind the test \<open>if token_counts\<close>. On any list, when the
  encoding loads, the result is the statistics record, so neither
  \<open>ZeroDivisionError\<close> nor the empty-sequence \<open>ValueError\<close> is raised; the only error a
  call can raise is the one of the encoding lookup, on a non-empty list.
\<close>

theorem analyze_corpus_tokens_total:
  fixes articles :: "('v, 'x) article_scheme list"
  shows
  "analyze_corpus_tokens get_encoding ([] :: ('v, 'x) article_scheme list) name =
     Inr \<lparr>num_articles = 0, total_tokens = 0, avg_tokens = 0, min_tokens = 0,
          max_tokens = 0, token_counts = []\<rparr>
   \<and> (\<forall>enc. get_encoding name = Inr enc \<longrightarrow>
        (let counts = map (\<lambda>a. int (length (enc (title_nl_description a)))) articles
         in analyze_corpus_tokens get_encoding articles name =
            Inr \<lparr>num_articles = int (length articles),
                 total_tokens = sum_list counts,
                 avg_tokens = (if articles = [] then 0
                               else of_int (sum_list counts) / of_int (int (length articles))),
                 min_tokens = (if articles = [] then 0 else Min (set counts)),
                 max_tokens = (if articles = [] then 0 else Max (set counts)),
                 token_counts = counts\<rparr>))
   \<and> (\<forall>e. get_encoding name = Inl e \<and> articles \<noteq> [] \<longrightarrow>
        analyze_corpus_tokens get_encoding articles name = Inl e)"
proof (intro conjI allI impI)
  show "analyze_corpus_tokens get_encoding ([] :: ('v, 'x) article_scheme list) name =
     Inr \<lparr>num_articles = 0, total_tokens = 0, avg_tokens = 0, min_tokens = 0,
          max_tokens = 0, token_counts = []\<rparr>"
    by (simp add: analyze_corpus_tokens_def)
next
  fix enc assume ok: "get_encoding name = Inr enc"
  show "let counts = map (\<lambda>a. int (length (enc (title_nl_description a)))) articles
         in analyze_corpus_tokens get_encoding articles name =
            Inr \<lparr>num_articles = int (length articles),
                 total_tokens = sum_list counts,
                 avg_tokens = (if articles = [] then 0
                               else of_int (sum_list counts) / of_int (int (length articles))),
                 min_tokens = (if articles = [] then 0 else Min (set counts)),
                 max_tokens = (if articles = [] then 0 else Max (set counts)),
                 token_counts = counts\<rparr>"
  proof (cases "articles = []")
    case True
    then show ?thesis by (simp add: analyze_corpus_tokens_def)
  next
    case False
    then show ?thesis
      using ok
      by (simp add: analyze_corpus_tokens_def collect_token_counts_ok
            py_truediv_def py_min_Min py_max_Max Let_def)
  qed
next
  fix e assume "get_encoding name = Inl e \<and> articles \<noteq> []"
  then show "analyze_corpus_tokens get_encoding articles name = Inl e"
    by (simp add: analyze_corpus_tokens_def collect_token_counts_err)
qed

theorem analyze_corpus_tokens_total_witness:
  "example_encoding ''cl100k_base'' = Inr one_token_per_char
   \<and> analyze_corpus_tokens example_encoding [economy_article, football_article] ''cl100k_base'' =
       Inr \<lparr>num_articles = 2, total_tokens = 74, avg_tokens = 37, min_tokens = 30,
            max_tokens = 44, token_counts = [30, 44]\<rparr>
   \<and> example_encoding ''gpt2'' = Inl (ValueError ''Unknown encoding'')
   \<and> analyze_corpus_tokens example_encoding [economy_article] ''gpt2'' =
       Inl (ValueError ''Unknown encoding'')"
  using analyze_corpus_tokens_total
          [of example_encoding "''cl100k_base''" "[economy_article, football_article]"]
        analyze_corpus_tokens_total [of example_encoding "''gpt2''" "[economy_article]"]
  by (simp add: example_encoding_def one_token_per_char_def economy_article_def
        football_article_def title_nl_description_def get_or_def Let_def)

end
